(* ===== verification/Prelude.thy ===== *)
theory Prelude
  imports Main "HOL-Library.Word" "HOL-Library.Code_Target_Numeral"
begin

text \<open>
  Shared vocabulary of the ComponentInventory development: the exceptions the
  program can raise (Python, sqlite3, SQLAlchemy and Flask's \<open>abort\<close>), the
  error monad that threads them the way Python propagates an exception, the
  signed 64-bit range of SQLite integers, and generic lemmas on association lists
  that the table model of \<open>Component_Table\<close> uses.
\<close>

section \<open>Collections\<close>

named_theorems model_defs "unfolding rules of the model's executable definitions"
named_theorems table_inv_rules "facts that carry the table invariant through an operation"

section \<open>Exceptions and the error monad\<close>

text \<open>
  Every exception of the program is a value of \<open>exc\<close>:
  \<^item> \<open>KeyError k\<close>, \<open>TypeError\<close>, \<open>AttributeError\<close>: raised by \<open>data[k]\<close> and
    \<open>data.get(k)\<close> on the request body (\<^verbatim>\<open>src/main.py\<close>);
  \<^item> \<open>OverflowError\<close>: sqlite3 cannot bind a Python \<open>int\<close> outside the signed
    64-bit range;
  \<^item> \<open>InterfaceError\<close>: sqlite3 cannot bind a list or a dict;
  \<^item> \<open>IntegrityError c\<close>: SQLite's \<open>NOT NULL constraint failed\<close> on column \<open>c\<close>;
  \<^item> \<open>SqliteFull\<close>: SQLite found no free rowid;
  \<^item> \<open>NotFound\<close>: the \<open>HTTPException\<close> raised by \<open>get_or_404\<close>;
  \<^item> \<open>JSONDecodeError\<close>: \<open>json.loads\<close> on a response body that is not JSON (used by
    the test suite).
\<close>

datatype exc =
    KeyError string
  | TypeError
  | AttributeError
  | OverflowError
  | InterfaceError
  | IntegrityError string
  | SqliteFull
  | NotFound
  | JSONDecodeError

type_synonym 'a result = "exc + 'a"

definition exc_bind :: "'a result \<Rightarrow> ('a \<Rightarrow> 'b result) \<Rightarrow> 'b result" where
  "exc_bind r f = (case r of Inl e \<Rightarrow> Inl e | Inr x \<Rightarrow> f x)"

section \<open>Signed 64-bit integers\<close>

text \<open>
  SQLite stores integers as signed 64-bit values and Python's sqlite3 module refuses
  to bind an \<open>int\<close> outside that range. Values are kept as \<open>64 word\<close> and read
  back with \<open>sint\<close>.
\<close>

type_synonym i64 = "64 word"
type_synonym rowid = int

definition int64_min :: int where
  "int64_min = - (2 ^ 63)"

definition int64_max :: int where
  "int64_max = 2 ^ 63 - 1"

definition in_int64 :: "int \<Rightarrow> bool" where
  "in_int64 n \<longleftrightarrow> int64_min \<le> n \<and> n \<le> int64_max"

section \<open>Association lists ordered by key\<close>

text \<open>
  A table is an association list kept in strictly increasing key order; these are
  the facts about \<open>map_of\<close>, \<open>insort_key\<close>, \<open>filter\<close> and pointwise update on
  such lists that the table operations need.
\<close>

definition update_at :: "'k \<Rightarrow> 'v \<Rightarrow> ('k \<times> 'v) list \<Rightarrow> ('k \<times> 'v) list" where
  "update_at k v t = map (\<lambda>(k', v'). if k' = k then (k', v) else (k', v')) t"

abbreviation keys_strict :: "('k::linorder \<times> 'v) list \<Rightarrow> bool" where
  "keys_strict t \<equiv> sorted_wrt (<) (map fst t)"

section \<open>Lemmas\<close>

subsection \<open>The error monad\<close>

lemma exc_bind_simps [simp]:
  "exc_bind (Inl e) f = Inl e"
  "exc_bind (Inr x) f = f x"
  by (simp_all add: exc_bind_def)

lemma exc_bind_eq_Inr [simp]:
  "exc_bind r f = Inr y \<longleftrightarrow> (\<exists>x. r = Inr x \<and> f x = Inr y)"
  by (cases r) simp_all

lemma exc_bind_eq_Inl:
  "exc_bind r f = Inl e \<longleftrightarrow> r = Inl e \<or> (\<exists>x. r = Inr x \<and> f x = Inl e)"
  by (cases r) simp_all

lemma exc_bind_assoc: "exc_bind (exc_bind r f) g = exc_bind r (\<lambda>x. exc_bind (f x) g)"
  by (cases r) simp_all

lemma map_sum_exc_bind: "map_sum id h r = exc_bind r (\<lambda>x. Inr (h x))"
  by (cases r) simp_all

subsection \<open>Signed 64-bit integers\<close>

lemma in_int64_iff: "in_int64 n \<longleftrightarrow> - 9223372036854775808 \<le> n \<and> n \<le> 9223372036854775807"
  by (simp add: in_int64_def int64_min_def int64_max_def)

lemma sint_word_of_int_i64:
  assumes "in_int64 n"
  shows "sint (word_of_int n :: i64) = n"
proof -
  have "- (2 ^ 63) \<le> n \<and> n < 2 ^ 63"
    using assms by (simp add: in_int64_def int64_min_def int64_max_def)
  then show ?thesis
    by (simp add: sint_sbintrunc' signed_take_bit_int_eq_self)
qed

lemma in_int64_sint: "in_int64 (sint (w :: i64))"
  using sint_ge [of w] sint_lt [of w]
  by (simp add: in_int64_def int64_min_def int64_max_def)

lemma word_of_int_sint_i64 [simp]: "word_of_int (sint (w :: i64)) = w"
  by simp

subsection \<open>Association lists ordered by key\<close>

lemma keys_strict_distinct: "keys_strict t \<Longrightarrow> distinct (map fst t)"
  by (simp add: strict_sorted_iff)

lemma map_of_insort_key [simp]:
  "k \<notin> fst ` set t \<Longrightarrow> map_of (insort_key fst (k, v) t) = (map_of t)(k \<mapsto> v)"
  by (induction t) (auto simp: fun_eq_iff)

lemma keys_strict_insort_key:
  "keys_strict t \<Longrightarrow> k \<notin> fst ` set t \<Longrightarrow> keys_strict (insort_key fst (k, v) t)"
proof (induction t)
  case Nil
  then show ?case by simp
next
  case (Cons x t)
  have "fst x \<noteq> k" using Cons.prems(2) by auto
  then show ?case
    using Cons by (auto simp: set_insort_key)
qed

lemma insort_key_snoc:
  "\<forall>x \<in> set t. fst x < k \<Longrightarrow> insort_key fst (k, v) t = t @ [(k, v)]"
  by (induction t) auto

lemma map_fst_update_at [simp]: "map fst (update_at k v t) = map fst t"
  by (induction t) (auto simp: update_at_def)

lemma map_of_update_at [simp]:
  "map_of (update_at k v t) = (if k \<in> fst ` set t then (map_of t)(k \<mapsto> v) else map_of t)"
  by (induction t) (auto simp: update_at_def fun_eq_iff)

lemma update_at_same:
  "distinct (map fst t) \<Longrightarrow> map_of t k = Some v \<Longrightarrow> update_at k v t = t"
proof (induction t)
  case Nil
  then show ?case by simp
next
  case (Cons x t)
  show ?case
  proof (cases "fst x = k")
    case True
    with Cons.prems have "k \<notin> fst ` set t" "snd x = v" by auto
    then have "update_at k v t = t"
      by (induction t) (auto simp: update_at_def)
    with True \<open>snd x = v\<close> show ?thesis by (cases x) (simp add: update_at_def)
  next
    case False
    with Cons show ?thesis by (cases x) (simp add: update_at_def)
  qed
qed

lemma keys_strict_map_of_eq:
  assumes "keys_strict t" "keys_strict u" "map_of t = map_of u"
  shows "t = u"
proof -
  have d: "distinct (map fst t)" "distinct (map fst u)" using assms(1,2) by (simp_all add: keys_strict_distinct)
  have s: "set t = set u" using map_of_inject_set [OF d] assms(3) by simp
  have "inj_on fst (set t \<union> set u)" using d(1) s by (simp add: distinct_map)
  then show ?thesis
    using map_sorted_distinct_set_unique [of fst t u] d s assms(1,2) by (simp add: strict_sorted_iff)
qed

lemma set_update_at:
  "(k', v') \<in> set (update_at k v t) \<Longrightarrow> \<exists>v0. (k', v0) \<in> set t \<and> (v' = v0 \<or> v' = v)"
  by (auto simp: update_at_def split: if_splits)

lemma map_of_filter_key [simp]:
  "map_of (filter (\<lambda>(k', _). k' \<noteq> k) t) = (map_of t)(k := None)"
  by (induction t) (auto simp: fun_eq_iff)

lemma keys_strict_filter: "keys_strict t \<Longrightarrow> keys_strict (filter P t)"
  by (induction t) auto

end
