(* ===== verification/Json.thy ===== *)
theory Json
  imports Prelude
begin

text \<open>
  JSON values as the program sees them: the request body after Flask's
  \<open>request.get_json()\<close> (a Python value built by \<open>json.loads\<close>) and the response
  body given to \<open>jsonify\<close>. An object keeps its members in the order of the text;
  \<open>json.loads\<close> keeps the last of duplicate keys, so a lookup reads the last
  occurrence. Numbers are integers (Python \<open>int\<close>, unbounded); JSON fractions and
  exponents are not modelled.

  \<open>getitem\<close> and \<open>dict_get\<close> are Python's \<open>data[k]\<close> and \<open>data.get(k)\<close> on such
  a value, with the exception Python raises when the value is not a \<open>dict\<close> or the
  key is absent.
\<close>

datatype json =
    JNull
  | JBool bool
  | JInt int
  | JStr string
  | JArr "json list"
  | JObj "(string \<times> json) list"

definition obj_lookup :: "(string \<times> json) list \<Rightarrow> string \<Rightarrow> json option" where
  "obj_lookup kvs k = map_of (rev kvs) k"

fun getitem :: "json \<Rightarrow> string \<Rightarrow> json result" where
  "getitem (JObj kvs) k = (case obj_lookup kvs k of None \<Rightarrow> Inl (KeyError k) | Some v \<Rightarrow> Inr v)"
| "getitem _ k = Inl TypeError"

fun dict_get :: "json \<Rightarrow> string \<Rightarrow> json result" where
  "dict_get (JObj kvs) k = Inr (case obj_lookup kvs k of None \<Rightarrow> JNull | Some v \<Rightarrow> v)"
| "dict_get _ k = Inl AttributeError"

definition has_key :: "json \<Rightarrow> string \<Rightarrow> bool" where
  "has_key d k = (case d of JObj kvs \<Rightarrow> obj_lookup kvs k \<noteq> None | _ \<Rightarrow> False)"

declare obj_lookup_def [model_defs] has_key_def [model_defs]

section \<open>Lemmas\<close>

lemma obj_lookup_snoc:
  "obj_lookup (kvs @ [(k, v)]) k' = (if k' = k then Some v else obj_lookup kvs k')"
  by (simp add: obj_lookup_def)

lemma getitem_Inr_iff:
  "getitem d k = Inr v \<longleftrightarrow> (\<exists>kvs. d = JObj kvs \<and> obj_lookup kvs k = Some v)"
  by (cases d) (auto split: option.splits)

lemma getitem_has_key:
  "has_key d k \<longleftrightarrow> (\<exists>v. getitem d k = Inr v)"
  by (cases d) (auto simp: has_key_def split: option.splits)

lemma getitem_missing [simp]:
  "\<not> has_key d k \<Longrightarrow> getitem d k = (case d of JObj _ \<Rightarrow> Inl (KeyError k) | _ \<Rightarrow> Inl TypeError)"
  by (cases d) (auto simp: has_key_def split: option.splits)

lemma dict_get_obj:
  "dict_get (JObj kvs) k = Inr (if has_key (JObj kvs) k then the (obj_lookup kvs k) else JNull)"
  by (auto simp: has_key_def split: option.splits)

lemma dict_get_getitem:
  "getitem d k = Inr v \<Longrightarrow> dict_get d k = Inr v"
  by (cases d) (auto split: option.splits)

end
