(* ===== verification/Sqlite_Value.thy ===== *)
theory Sqlite_Value
  imports Json
begin

text \<open>
  The values SQLite stores for the \<open>component\<close> table and the conversions between
  them and the Python values of the program, as the program's columns use them:
  \<^item> \<open>sqlite_bind\<close>: how Python's sqlite3 module binds a Python value as a
    statement parameter (\<open>None\<close>, \<open>bool\<close>, \<open>int\<close>, \<open>str\<close>; anything else
    is refused);
  \<^item> \<open>apply_affinity\<close>: SQLite's column affinity, the conversion applied to a
    value stored in a column declared \<open>VARCHAR\<close>/\<open>TEXT\<close> (TEXT affinity) or
    \<open>INTEGER\<close> (INTEGER affinity);
  \<^item> \<open>sql_to_json\<close>: the Python value SQLAlchemy reads back, as \<open>jsonify\<close> prints it.
  The integer-to-text conversion of TEXT affinity and the text-to-integer conversion
  of INTEGER affinity are \<open>dec_of_int\<close> and \<open>int_of_dec\<close>; the two are inverse.
  Text that SQLite would read as a real number (a fraction, an exponent, an integer
  outside 64 bits, surrounding white space) is kept as text by this model.
\<close>

datatype sqlval = SNull | SInt i64 | SText string

section \<open>Binding Python values\<close>

fun sqlite_bind :: "json \<Rightarrow> sqlval result" where
  "sqlite_bind JNull = Inr SNull"
| "sqlite_bind (JBool b) = Inr (SInt (if b then 1 else 0))"
| "sqlite_bind (JInt n) = (if in_int64 n then Inr (SInt (word_of_int n)) else Inl OverflowError)"
| "sqlite_bind (JStr s) = Inr (SText s)"
| "sqlite_bind (JArr _) = Inl InterfaceError"
| "sqlite_bind (JObj _) = Inl InterfaceError"

section \<open>Decimal text\<close>

definition digit_char :: "nat \<Rightarrow> char" where
  "digit_char d = ''0123456789'' ! d"

definition is_digit :: "char \<Rightarrow> bool" where
  "is_digit c \<longleftrightarrow> 48 \<le> (of_char c :: nat) \<and> (of_char c :: nat) \<le> 57"

fun dec_of_nat :: "nat \<Rightarrow> string" where
  "dec_of_nat n = (if n < 10 then [digit_char n] else dec_of_nat (n div 10) @ [digit_char (n mod 10)])"

declare dec_of_nat.simps [simp del]

definition dec_of_int :: "int \<Rightarrow> string" where
  "dec_of_int n = (if n < 0 then CHR ''-'' # dec_of_nat (nat (- n)) else dec_of_nat (nat n))"

fun digits_val :: "nat \<Rightarrow> string \<Rightarrow> nat option" where
  "digits_val acc [] = Some acc"
| "digits_val acc (c # cs) = (if is_digit c then digits_val (10 * acc + (of_char c - 48 :: nat)) cs else None)"

definition nat_of_dec :: "string \<Rightarrow> nat option" where
  "nat_of_dec s = (if s = [] then None else digits_val 0 s)"

definition int_of_dec :: "string \<Rightarrow> int option" where
  "int_of_dec s =
     (case s of
        c # ds \<Rightarrow>
          if c = CHR ''-'' then map_option (\<lambda>n. - int n) (nat_of_dec ds)
          else if c = CHR ''+'' then map_option int (nat_of_dec ds)
          else map_option int (nat_of_dec s)
      | [] \<Rightarrow> None)"

section \<open>Column affinity\<close>

datatype affinity = TEXT | INTEGER

fun apply_affinity :: "affinity \<Rightarrow> sqlval \<Rightarrow> sqlval" where
  "apply_affinity TEXT (SInt w) = SText (dec_of_int (sint w))"
| "apply_affinity INTEGER (SText s) =
     (case int_of_dec s of
        Some n \<Rightarrow> if in_int64 n then SInt (word_of_int n) else SText s
      | None \<Rightarrow> SText s)"
| "apply_affinity _ v = v"

section \<open>Reading values back\<close>

fun sql_to_json :: "sqlval \<Rightarrow> json" where
  "sql_to_json SNull = JNull"
| "sql_to_json (SInt w) = JInt (sint w)"
| "sql_to_json (SText s) = JStr s"

text \<open>Python's \<open>str()\<close> of the value read back, as an f-string prints it.\<close>

fun py_str :: "sqlval \<Rightarrow> string" where
  "py_str SNull = ''None''"
| "py_str (SInt w) = dec_of_int (sint w)"
| "py_str (SText s) = s"


declare digit_char_def [model_defs] is_digit_def [model_defs] dec_of_int_def [model_defs]
  dec_of_nat.simps [model_defs] nat_of_dec_def [model_defs] int_of_dec_def [model_defs]
  in_int64_def [model_defs] int64_min_def [model_defs] int64_max_def [model_defs]

section \<open>Lemmas\<close>

subsection \<open>Decimal text round trip\<close>

lemma digit_char_props:
  assumes "d < 10"
  shows "is_digit (digit_char d) \<and> of_char (digit_char d) - 48 = d"
proof -
  have "d \<in> {0, 1, 2, 3, 4, 5, 6, 7, 8, 9}" using assms by auto
  then show ?thesis by (auto simp: digit_char_def is_digit_def)
qed

lemma digits_val_append:
  "digits_val acc (xs @ ys) = (case digits_val acc xs of None \<Rightarrow> None | Some a \<Rightarrow> digits_val a ys)"
  by (induction acc xs rule: digits_val.induct) auto

lemma dec_of_nat_nonempty: "dec_of_nat n \<noteq> []"
  by (subst dec_of_nat.simps) simp

lemma dec_of_nat_digits: "c \<in> set (dec_of_nat n) \<Longrightarrow> is_digit c"
proof (induction n rule: dec_of_nat.induct)
  case (1 n)
  show ?case
  proof (cases "n < 10")
    case True
    with "1.prems" show ?thesis by (simp add: dec_of_nat.simps [of n] digit_char_props)
  next
    case False
    with "1.prems" have "c \<in> set (dec_of_nat (n div 10)) \<or> c = digit_char (n mod 10)"
      by (auto simp: dec_of_nat.simps [of n])
    with False "1.IH" show ?thesis by (auto simp: digit_char_props)
  qed
qed

lemma digits_val_dec_of_nat:
  "digits_val acc (dec_of_nat n) = Some (acc * 10 ^ length (dec_of_nat n) + n)"
proof (induction n arbitrary: acc rule: dec_of_nat.induct)
  case (1 n)
  show ?case
  proof (cases "n < 10")
    case True
    then show ?thesis by (simp add: dec_of_nat.simps [of n] digit_char_props)
  next
    case False
    let ?L = "length (dec_of_nat (n div 10))"
    have "digits_val acc (dec_of_nat n) =
          digits_val (acc * 10 ^ ?L + n div 10) [digit_char (n mod 10)]"
      using False "1.IH" by (simp add: dec_of_nat.simps [of n] digits_val_append)
    also have "\<dots> = Some (10 * (acc * 10 ^ ?L + n div 10) + n mod 10)"
      by (simp add: digit_char_props)
    also have "10 * (acc * 10 ^ ?L + n div 10) + n mod 10 = acc * 10 ^ Suc ?L + n"
      by simp
    finally show ?thesis using False by (simp add: dec_of_nat.simps [of n])
  qed
qed

lemma nat_of_dec_of_nat [simp]: "nat_of_dec (dec_of_nat n) = Some n"
  by (simp add: nat_of_dec_def dec_of_nat_nonempty digits_val_dec_of_nat)

lemma dec_of_nat_hd: "\<exists>c cs. dec_of_nat n = c # cs \<and> is_digit c"
proof -
  obtain c cs where eq: "dec_of_nat n = c # cs"
    using dec_of_nat_nonempty by (cases "dec_of_nat n") auto
  then have "is_digit c" using dec_of_nat_digits [of c n] by simp
  with eq show ?thesis by blast
qed

lemma int_of_dec_of_int [simp]: "int_of_dec (dec_of_int n) = Some n"
proof (cases "n < 0")
  case True
  then show ?thesis by (simp add: dec_of_int_def int_of_dec_def)
next
  case False
  obtain c cs where eq: "dec_of_nat (nat n) = c # cs" and d: "is_digit c"
    using dec_of_nat_hd by blast
  have "c \<noteq> CHR ''-'' \<and> c \<noteq> CHR ''+''" using d by (auto simp: is_digit_def)
  then have "int_of_dec (dec_of_nat (nat n)) = map_option int (nat_of_dec (dec_of_nat (nat n)))"
    by (simp add: int_of_dec_def eq)
  with False show ?thesis by (simp add: dec_of_int_def)
qed

lemma dec_of_int_inj: "dec_of_int m = dec_of_int n \<Longrightarrow> m = n"
  by (metis int_of_dec_of_int option.inject)

subsection \<open>Parsing decimal text\<close>

lemma digit_char_of_digit:
  assumes "is_digit c"
  shows "digit_char (of_char c - 48) = c \<and> of_char c - 48 < (10::nat)"
proof -
  let ?d = "of_char c - 48 :: nat"
  have b: "48 \<le> (of_char c :: nat)" "(of_char c :: nat) \<le> 57" using assms by (simp_all add: is_digit_def)
  then have d: "?d < 10" by simp
  then have "is_digit (digit_char ?d)" "of_char (digit_char ?d) - 48 = ?d"
    using digit_char_props by blast+
  then have "48 \<le> (of_char (digit_char ?d) :: nat)" "(of_char (digit_char ?d) :: nat) - 48 = ?d"
    by (simp_all add: is_digit_def)
  then have "(of_char (digit_char ?d) :: nat) = of_char c" using b(1) by arith
  then have "digit_char ?d = c" by (simp only: of_char_eq_iff)
  then show ?thesis using d by simp
qed

lemma digits_val_Some_iff:
  "digits_val acc s = Some n \<longleftrightarrow> (\<forall>c \<in> set s. is_digit c) \<and> n = fold (\<lambda>c a. 10 * a + (of_char c - 48)) s acc"
  by (induction acc s rule: digits_val.induct) auto

lemma digits_val_zeros: "digits_val 0 (replicate k CHR ''0'' @ s) = digits_val 0 s"
  by (induction k) (simp_all add: is_digit_def)

text \<open>A non-empty digit string without a leading zero is the decimal text of its value.\<close>

lemma dec_of_nat_canonical:
  assumes "\<forall>c \<in> set s. is_digit c" "s \<noteq> []" "hd s \<noteq> CHR ''0''"
  shows "dec_of_nat (fold (\<lambda>c a. 10 * a + (of_char c - 48)) s 0) = s \<and> 0 < fold (\<lambda>c a. 10 * a + (of_char c - 48)) s (0::nat)"
  using assms
proof (induction s rule: rev_induct)
  case Nil
  then show ?case by simp
next
  case (snoc c s)
  let ?v = "\<lambda>s. fold (\<lambda>c a. 10 * a + (of_char c - 48)) s (0::nat)"
  have dc: "digit_char (of_char c - 48) = c" "of_char c - 48 < (10::nat)"
    using digit_char_of_digit [of c] snoc.prems(1) by simp_all
  show ?case
  proof (cases "s = []")
    case True
    then have "c \<noteq> CHR ''0''" using snoc.prems(3) by simp
    then have "of_char c - 48 \<noteq> (0::nat)"
      using dc(1) by (auto simp: digit_char_def)
    with True dc show ?thesis by (simp add: dec_of_nat.simps)
  next
    case False
    then have ih: "dec_of_nat (?v s) = s" "0 < ?v s"
      using snoc.IH snoc.prems by auto
    have v: "?v (s @ [c]) = 10 * ?v s + (of_char c - 48)" by simp
    have "dec_of_nat (?v (s @ [c])) = dec_of_nat (?v s) @ [digit_char (of_char c - 48)]"
      unfolding v using ih(2) dc(2) by (subst dec_of_nat.simps) simp
    then show ?thesis using ih dc v by simp
  qed
qed

lemma nat_of_dec_iff:
  "nat_of_dec ds = Some n \<longleftrightarrow> (\<exists>k. ds = replicate k CHR ''0'' @ dec_of_nat n)"
proof
  assume "\<exists>k. ds = replicate k CHR ''0'' @ dec_of_nat n"
  then show "nat_of_dec ds = Some n"
    by (auto simp: nat_of_dec_def digits_val_zeros digits_val_dec_of_nat dec_of_nat_nonempty)
next
  assume h: "nat_of_dec ds = Some n"
  define k where "k = length (takeWhile (\<lambda>c. c = CHR ''0'') ds)"
  define rest where "rest = dropWhile (\<lambda>c. c = CHR ''0'') ds"
  have "replicate k CHR ''0'' = takeWhile (\<lambda>c. c = CHR ''0'') ds"
    unfolding k_def by (rule replicate_length_same) (auto dest: set_takeWhileD)
  then have split: "ds = replicate k CHR ''0'' @ rest"
    unfolding rest_def by simp
  have ne: "ds \<noteq> []" and v: "digits_val 0 ds = Some n"
    using h by (simp_all add: nat_of_dec_def split: if_splits)
  then have vr: "digits_val 0 rest = Some n" using split digits_val_zeros by metis
  show "\<exists>k. ds = replicate k CHR ''0'' @ dec_of_nat n"
  proof (cases "rest = []")
    case True
    with vr have "n = 0" by simp
    moreover from True split ne have "0 < k" by (cases k) auto
    then obtain m where "k = Suc m" by (cases k) auto
    with True split \<open>n = 0\<close> have "ds = replicate m CHR ''0'' @ dec_of_nat n"
      by (simp add: dec_of_nat.simps digit_char_def replicate_append_same)
    then show ?thesis by blast
  next
    case False
    have "hd rest \<noteq> CHR ''0''"
      using False hd_dropWhile [of "\<lambda>c. c = CHR ''0''" ds] unfolding rest_def by simp
    moreover have "\<forall>c \<in> set rest. is_digit c" "n = fold (\<lambda>c a. 10 * a + (of_char c - 48)) rest 0"
      using vr by (simp_all add: digits_val_Some_iff)
    ultimately have "dec_of_nat n = rest" using dec_of_nat_canonical [of rest] False by simp
    with split show ?thesis by blast
  qed
qed

lemma int_of_dec_no_digit:
  assumes "\<forall>c \<in> set s. \<not> is_digit c"
  shows "int_of_dec s = None"
proof -
  have nd: "\<forall>c \<in> set ds. \<not> is_digit c \<Longrightarrow> nat_of_dec ds = None" for ds
    by (cases ds) (simp_all add: nat_of_dec_def)
  show ?thesis
    using assms nd [of s] nd [of "tl s"] by (cases s) (auto simp: int_of_dec_def)
qed

subsection \<open>Affinity and read-back\<close>

lemma apply_affinity_idem [simp]:
  "apply_affinity a (apply_affinity a v) = apply_affinity a v"
  by (cases a; cases v) (auto split: option.splits simp: sint_word_of_int_i64)

lemma apply_affinity_int64 [simp]:
  "in_int64 n \<Longrightarrow> apply_affinity INTEGER (SInt (word_of_int n)) = SInt (word_of_int n)"
  by simp

lemma text_affinity_int:
  "in_int64 n \<Longrightarrow> apply_affinity TEXT (SInt (word_of_int n)) = SText (dec_of_int n)"
  by (simp add: sint_word_of_int_i64)

lemma integer_affinity_dec:
  "in_int64 n \<Longrightarrow> apply_affinity INTEGER (SText (dec_of_int n)) = SInt (word_of_int n)"
  by simp

lemma sql_to_json_bind_int:
  "in_int64 n \<Longrightarrow> sqlite_bind (JInt n) = Inr v \<Longrightarrow> sql_to_json v = JInt n"
  by (auto simp: sint_word_of_int_i64 split: if_splits)

lemma sqlite_bind_Inl:
  "sqlite_bind v = Inl e \<longleftrightarrow>
     (e = OverflowError \<and> (\<exists>n. v = JInt n \<and> \<not> in_int64 n)) \<or>
     (e = InterfaceError \<and> ((\<exists>xs. v = JArr xs) \<or> (\<exists>kvs. v = JObj kvs)))"
  by (cases v) auto

lemma sqlite_bind_null_iff [simp]: "sqlite_bind v = Inr SNull \<longleftrightarrow> v = JNull"
  by (cases v) auto

lemma sql_to_json_null [simp]: "sql_to_json v = JNull \<longleftrightarrow> v = SNull"
  by (cases v) auto

lemma text_column_value:
  "apply_affinity TEXT v = v \<Longrightarrow> v = SNull \<or> (\<exists>s. v = SText s)"
  by (cases v) auto

end
