(* ===== verification/Component_Model.thy ===== *)
theory Component_Model
  imports Sqlite_Value
begin

text \<open>
  The model class \<open>Component\<close> of \<^verbatim>\<open>src/main.py\<close> (lines 8--18) and the code that
  moves its values between the request, the SQLAlchemy object and the database row.

  \<^item> \<open>'v component\<close> holds the six mapped attributes other than \<open>id\<close>;
    \<open>json component\<close> is the Python object the handlers fill from the request,
    \<open>sqlval component\<close> the row SQLite stores (the \<open>id\<close> is the row's key in
    \<open>Component_Table\<close>).
  \<^item> \<open>component_columns\<close> is the column declarations: declared type and
    \<open>nullable\<close>; the declared type decides SQLite's affinity, \<open>nullable=False\<close>
    becomes a \<open>NOT NULL\<close> constraint. \<open>String(n)\<close> lengths are not enforced by
    SQLite and play no part.
  \<^item> \<open>read_fields\<close> is the constructor call of \<open>create_component\<close> (the six
    reads of the body in source order), \<open>assign_fields\<close> the six attribute writes
    of \<open>update_component\<close>.
  \<^item> \<open>flush_insert\<close> is the \<open>INSERT\<close> of a new object at commit: sqlite3 binds
    every parameter, SQLite applies each column's affinity, then checks
    \<open>NOT NULL\<close> in column order. \<open>flush_update\<close> is the \<open>UPDATE\<close> of a loaded
    object: SQLAlchemy writes only the attributes whose new value is not \<open>==\<close> to
    the loaded one. Theorem \<open>flush_update_eq_insert\<close> shows the two agree on every
    row the table can hold.
  \<^item> \<open>component_to_dict\<close> and \<open>component_repr\<close> are lines 65--74 and 17--18.
\<close>

record 'v component =
  name :: 'v
  type :: 'v
  version :: 'v
  description :: 'v
  amount :: 'v
  datasheet_url :: 'v

section \<open>Generic operations on the six attributes\<close>

definition component_list :: "'v component \<Rightarrow> 'v list" where
  "component_list c = [name c, type c, version c, description c, amount c, datasheet_url c]"

definition component_map :: "('a \<Rightarrow> 'b) \<Rightarrow> 'a component \<Rightarrow> 'b component" where
  "component_map f c =
     \<lparr>name = f (name c), type = f (type c), version = f (version c),
      description = f (description c), amount = f (amount c),
      datasheet_url = f (datasheet_url c)\<rparr>"

definition component_zip :: "('a \<Rightarrow> 'b \<Rightarrow> 'c) \<Rightarrow> 'a component \<Rightarrow> 'b component \<Rightarrow> 'c component" where
  "component_zip f a b =
     \<lparr>name = f (name a) (name b), type = f (type a) (type b),
      version = f (version a) (version b), description = f (description a) (description b),
      amount = f (amount a) (amount b), datasheet_url = f (datasheet_url a) (datasheet_url b)\<rparr>"

text \<open>The first exception in column order wins, as a statement's parameters are bound in order.\<close>

definition component_seq :: "'a result component \<Rightarrow> 'a component result" where
  "component_seq c =
     exc_bind (name c) (\<lambda>n. exc_bind (type c) (\<lambda>t. exc_bind (version c) (\<lambda>v.
     exc_bind (description c) (\<lambda>d. exc_bind (amount c) (\<lambda>a. exc_bind (datasheet_url c) (\<lambda>u.
     Inr \<lparr>name = n, type = t, version = v, description = d, amount = a, datasheet_url = u\<rparr>))))))"

section \<open>The column declarations\<close>

datatype coltype = Integer | String nat | Text

record column =
  col_name :: string
  col_type :: coltype
  col_nullable :: bool

definition component_columns :: "column component" where
  "component_columns =
     \<lparr>name = \<lparr>col_name = ''name'', col_type = String 100, col_nullable = False\<rparr>,
      type = \<lparr>col_name = ''type'', col_type = String 100, col_nullable = False\<rparr>,
      version = \<lparr>col_name = ''version'', col_type = String 50, col_nullable = True\<rparr>,
      description = \<lparr>col_name = ''description'', col_type = Text, col_nullable = True\<rparr>,
      amount = \<lparr>col_name = ''amount'', col_type = Integer, col_nullable = False\<rparr>,
      datasheet_url = \<lparr>col_name = ''datasheet_url'', col_type = String 200, col_nullable = True\<rparr>\<rparr>"

text \<open>SQLite's affinity rules for the declared types: \<open>INTEGER\<close> contains INT,
  \<open>VARCHAR(n)\<close> contains CHAR, \<open>TEXT\<close> contains TEXT.\<close>

fun type_affinity :: "coltype \<Rightarrow> affinity" where
  "type_affinity Integer = INTEGER"
| "type_affinity (String _) = TEXT"
| "type_affinity Text = TEXT"

definition col_affinity :: "column \<Rightarrow> sqlval \<Rightarrow> sqlval" where
  "col_affinity c v = apply_affinity (type_affinity (col_type c)) v"

definition not_null_violation :: "sqlval component \<Rightarrow> string option" where
  "not_null_violation row =
     map_option (col_name \<circ> fst)
       (find (\<lambda>(c, v). \<not> col_nullable c \<and> v = SNull)
          (zip (component_list component_columns) (component_list row)))"

definition check_row :: "sqlval component \<Rightarrow> sqlval component result" where
  "check_row row = (case not_null_violation row of Some c \<Rightarrow> Inl (IntegrityError c) | None \<Rightarrow> Inr row)"

section \<open>Filling the object from the request body\<close>

definition read_fields :: "json \<Rightarrow> json component result" where
  "read_fields data =
     exc_bind (getitem data ''name'') (\<lambda>n.
     exc_bind (getitem data ''type'') (\<lambda>t.
     exc_bind (dict_get data ''version'') (\<lambda>v.
     exc_bind (getitem data ''description'') (\<lambda>d.
     exc_bind (getitem data ''amount'') (\<lambda>a.
     exc_bind (getitem data ''datasheet_url'') (\<lambda>u.
     Inr \<lparr>name = n, type = t, version = v, description = d, amount = a, datasheet_url = u\<rparr>))))))"

definition assign_fields :: "json \<Rightarrow> json component \<Rightarrow> json component result" where
  "assign_fields data obj =
     exc_bind (getitem data ''name'') (\<lambda>n. let obj = obj\<lparr>name := n\<rparr> in
     exc_bind (getitem data ''type'') (\<lambda>t. let obj = obj\<lparr>type := t\<rparr> in
     exc_bind (dict_get data ''version'') (\<lambda>v. let obj = obj\<lparr>version := v\<rparr> in
     exc_bind (getitem data ''description'') (\<lambda>d. let obj = obj\<lparr>description := d\<rparr> in
     exc_bind (getitem data ''amount'') (\<lambda>a. let obj = obj\<lparr>amount := a\<rparr> in
     exc_bind (getitem data ''datasheet_url'') (\<lambda>u. let obj = obj\<lparr>datasheet_url := u\<rparr> in
     Inr obj))))))"

section \<open>Writing the object to the row\<close>

definition flush_insert :: "json component \<Rightarrow> sqlval component result" where
  "flush_insert obj =
     exc_bind (component_seq (component_map sqlite_bind obj))
       (\<lambda>b. check_row (component_zip col_affinity component_columns b))"

text \<open>SQLAlchemy's attribute history compares the new value with the loaded one by
  Python's \<open>==\<close> (where \<open>True == 1\<close> and \<open>False == 0\<close>).\<close>

fun attr_unchanged :: "sqlval \<Rightarrow> json \<Rightarrow> bool" where
  "attr_unchanged SNull v = (v = JNull)"
| "attr_unchanged (SInt w) v =
     (v = JInt (sint w) \<or> (v = JBool True \<and> sint w = 1) \<or> (v = JBool False \<and> sint w = 0))"
| "attr_unchanged (SText s) v = (v = JStr s)"

definition bind_changed :: "sqlval \<Rightarrow> json \<Rightarrow> (bool \<times> sqlval) result" where
  "bind_changed old new =
     (if attr_unchanged old new then Inr (False, old)
      else exc_bind (sqlite_bind new) (\<lambda>v. Inr (True, v)))"

definition store_changed :: "column \<Rightarrow> bool \<times> sqlval \<Rightarrow> sqlval" where
  "store_changed c wv = (if fst wv then col_affinity c (snd wv) else snd wv)"

definition flush_update :: "sqlval component \<Rightarrow> json component \<Rightarrow> sqlval component result" where
  "flush_update old obj =
     exc_bind (component_seq (component_zip bind_changed old obj))
       (\<lambda>b. check_row (component_zip store_changed component_columns b))"

section \<open>Serialisation\<close>

definition component_to_dict :: "rowid \<Rightarrow> sqlval component \<Rightarrow> json" where
  "component_to_dict i c =
     JObj [(''id'', JInt i),
           (''name'', sql_to_json (name c)),
           (''type'', sql_to_json (type c)),
           (''version'', sql_to_json (version c)),
           (''description'', sql_to_json (description c)),
           (''amount'', sql_to_json (amount c)),
           (''datasheet_url'', sql_to_json (datasheet_url c))]"

definition component_repr :: "sqlval component \<Rightarrow> string" where
  "component_repr c = ''<Component '' @ py_str (name c) @ '' ('' @ py_str (type c) @ '')>''"

section \<open>Rows the table can hold\<close>

text \<open>A stored row is fixed by its columns' affinities and satisfies the
  \<open>NOT NULL\<close> constraints.\<close>

definition col_ok :: "column \<Rightarrow> sqlval \<Rightarrow> bool" where
  "col_ok c v \<longleftrightarrow> col_affinity c v = v \<and> (\<not> col_nullable c \<longrightarrow> v \<noteq> SNull)"

definition row_ok :: "sqlval component \<Rightarrow> bool" where
  "row_ok row \<longleftrightarrow>
     list_all (\<lambda>(c, v). col_ok c v) (zip (component_list component_columns) (component_list row))"

text \<open>Request values that the columns store and read back unchanged: strings for the
  text columns (\<open>null\<close> where the column is nullable) and a 64-bit integer for
  \<open>amount\<close>.\<close>

fun is_str :: "json \<Rightarrow> bool" where
  "is_str (JStr _) = True"
| "is_str _ = False"

fun is_int64 :: "json \<Rightarrow> bool" where
  "is_int64 (JInt n) = in_int64 n"
| "is_int64 _ = False"

definition well_typed :: "json component \<Rightarrow> bool" where
  "well_typed obj \<longleftrightarrow>
     is_str (name obj) \<and> is_str (type obj) \<and> (is_str (version obj) \<or> version obj = JNull) \<and>
     (is_str (description obj) \<or> description obj = JNull) \<and> is_int64 (amount obj) \<and>
     (is_str (datasheet_url obj) \<or> datasheet_url obj = JNull)"

definition required_keys :: "string list" where
  "required_keys = [''name'', ''type'', ''description'', ''amount'', ''datasheet_url'']"

declare component_list_def [model_defs] component_map_def [model_defs]
  component_zip_def [model_defs] component_seq_def [model_defs] component_columns_def [model_defs]
  col_affinity_def [model_defs] not_null_violation_def [model_defs] check_row_def [model_defs]
  read_fields_def [model_defs] assign_fields_def [model_defs] flush_insert_def [model_defs]
  bind_changed_def [model_defs] store_changed_def [model_defs] flush_update_def [model_defs]
  component_to_dict_def [model_defs] component_repr_def [model_defs]
  well_typed_def [model_defs] required_keys_def [model_defs]

section \<open>Lemmas\<close>

lemma component_list_eq_iff: "component_list a = component_list b \<longleftrightarrow> a = b"
  by (cases a; cases b) (simp add: component_list_def)

lemma assign_fields_overwrites: "assign_fields data obj = read_fields data"
  by (simp add: assign_fields_def read_fields_def Let_def exc_bind_def split: sum.splits)

lemma component_seq_post:
  "exc_bind (component_seq X) (\<lambda>b. g (component_zip f cols b)) =
   exc_bind (component_seq (component_zip (\<lambda>c x. map_sum id (f c) x) cols X)) g"
  by (simp add: component_seq_def component_zip_def exc_bind_assoc map_sum_exc_bind)

lemma col_agree:
  assumes "col_affinity c old = old"
  shows "map_sum id (store_changed c) (bind_changed old new) = map_sum id (col_affinity c) (sqlite_bind new)"
proof (cases "attr_unchanged old new")
  case True
  have "sqlite_bind new = Inr old"
  proof (cases old)
    case SNull
    with True show ?thesis by simp
  next
    case (SInt w)
    have w: "sint w = k \<Longrightarrow> w = word_of_int k" for k
      using word_of_int_sint_i64 [of w] by simp
    from True SInt consider "new = JInt (sint w)" | "new = JBool True" "sint w = 1"
      | "new = JBool False" "sint w = 0"
      by auto
    then show ?thesis
    proof cases
      case 1
      with SInt show ?thesis by (simp add: in_int64_sint)
    next
      case 2
      with SInt w [of 1] show ?thesis by simp
    next
      case 3
      with SInt w [of 0] show ?thesis by simp
    qed
  next
    case (SText s)
    with True show ?thesis by simp
  qed
  with True assms show ?thesis by (simp add: bind_changed_def store_changed_def)
next
  case False
  then show ?thesis by (cases "sqlite_bind new") (simp_all add: bind_changed_def store_changed_def)
qed

lemma row_ok_iff:
  "row_ok row \<longleftrightarrow>
     col_ok (name component_columns) (name row) \<and> col_ok (type component_columns) (type row) \<and>
     col_ok (version component_columns) (version row) \<and>
     col_ok (description component_columns) (description row) \<and>
     col_ok (amount component_columns) (amount row) \<and>
     col_ok (datasheet_url component_columns) (datasheet_url row)"
  by (simp add: row_ok_def component_list_def)

theorem flush_update_eq_insert:
  assumes "row_ok old"
  shows "flush_update old obj = flush_insert obj"
proof -
  note fix_all = assms [unfolded row_ok_iff col_ok_def]
  have "component_zip (\<lambda>c x. map_sum id (store_changed c) x) component_columns
          (component_zip bind_changed old obj) =
        component_zip (\<lambda>c x. map_sum id (col_affinity c) x) component_columns
          (component_map sqlite_bind obj)"
    using fix_all by (simp add: component_zip_def component_map_def col_agree)
  then show ?thesis
    by (simp add: flush_update_def flush_insert_def component_seq_post)
qed


lemma check_row_Inr:
  "check_row row = Inr row' \<longleftrightarrow>
     row' = row \<and> name row \<noteq> SNull \<and> type row \<noteq> SNull \<and> amount row \<noteq> SNull"
  by (auto simp: check_row_def not_null_violation_def component_list_def component_columns_def
      find_None_iff split: option.splits)

lemma flush_insert_row_ok:
  assumes "flush_insert obj = Inr row"
  shows "row_ok row"
proof -
  obtain b where "component_seq (component_map sqlite_bind obj) = Inr b"
    and r: "check_row (component_zip col_affinity component_columns b) = Inr row"
    using assms by (auto simp: flush_insert_def)
  then show ?thesis
    by (auto simp: check_row_Inr row_ok_iff col_ok_def component_zip_def col_affinity_def component_columns_def)
qed

lemma echo_text:
  assumes "is_str v \<or> v = JNull"
  shows "\<exists>x. sqlite_bind v = Inr x \<and> apply_affinity TEXT x = x \<and> sql_to_json x = v \<and> (x = SNull \<longleftrightarrow> v = JNull)"
  using assms by (cases v) auto

lemma echo_int:
  assumes "is_int64 v"
  shows "\<exists>x. sqlite_bind v = Inr x \<and> apply_affinity INTEGER x = x \<and> sql_to_json x = v \<and> x \<noteq> SNull"
  using assms by (cases v) (auto simp: sint_word_of_int_i64)

theorem flush_insert_echo:
  assumes "well_typed obj"
  shows "\<exists>row. flush_insert obj = Inr row \<and> component_map sql_to_json row = obj"
proof -
  note wt = assms [unfolded well_typed_def]
  obtain xn where n: "sqlite_bind (name obj) = Inr xn" "apply_affinity TEXT xn = xn"
      "sql_to_json xn = name obj" "xn \<noteq> SNull"
    using echo_text [of "name obj"] wt by (cases "name obj") auto
  obtain xt where t: "sqlite_bind (type obj) = Inr xt" "apply_affinity TEXT xt = xt"
      "sql_to_json xt = type obj" "xt \<noteq> SNull"
    using echo_text [of "type obj"] wt by (cases "type obj") auto
  obtain xv where v: "sqlite_bind (version obj) = Inr xv" "apply_affinity TEXT xv = xv"
      "sql_to_json xv = version obj"
    using echo_text [of "version obj"] wt by blast
  obtain xd where d: "sqlite_bind (description obj) = Inr xd" "apply_affinity TEXT xd = xd"
      "sql_to_json xd = description obj"
    using echo_text [of "description obj"] wt by blast
  obtain xa where a: "sqlite_bind (amount obj) = Inr xa" "apply_affinity INTEGER xa = xa"
      "sql_to_json xa = amount obj" "xa \<noteq> SNull"
    using echo_int [of "amount obj"] wt by blast
  obtain xu where u: "sqlite_bind (datasheet_url obj) = Inr xu" "apply_affinity TEXT xu = xu"
      "sql_to_json xu = datasheet_url obj"
    using echo_text [of "datasheet_url obj"] wt by blast
  let ?row = "\<lparr>name = xn, type = xt, version = xv, description = xd, amount = xa, datasheet_url = xu\<rparr>"
  have "flush_insert obj = Inr ?row"
    using n t v d a u
    by (simp add: flush_insert_def component_seq_def component_map_def component_zip_def
        check_row_Inr col_affinity_def component_columns_def)
  moreover have "component_map sql_to_json ?row = obj"
    using n t v d a u by (simp add: component_map_def)
  ultimately show ?thesis by blast
qed

theorem flush_insert_read_back:
  assumes "row_ok row"
  shows "flush_insert (component_map sql_to_json row) = Inr row"
proof -
  have readback: "col_ok c x \<Longrightarrow> map_sum id (col_affinity c) (sqlite_bind (sql_to_json x)) = Inr x" for c x
    by (cases x) (auto simp: col_ok_def in_int64_sint)
  have "component_seq (component_zip (\<lambda>c x. map_sum id (col_affinity c) x) component_columns
          (component_map sqlite_bind (component_map sql_to_json row))) = Inr row"
    using assms unfolding row_ok_iff
    by (simp add: component_seq_def component_zip_def component_map_def readback)
  moreover have "check_row row = Inr row"
    using assms by (simp add: row_ok_iff col_ok_def check_row_Inr component_columns_def)
  ultimately show ?thesis
    by (simp add: flush_insert_def component_seq_post)
qed

lemma flush_insert_amount:
  assumes "flush_insert obj = Inr row" "sqlite_bind a = Inr x" "apply_affinity INTEGER x \<noteq> SNull"
  shows "flush_insert (obj\<lparr>amount := a\<rparr>) = Inr (row\<lparr>amount := apply_affinity INTEGER x\<rparr>)"
  using assms
  by (auto simp: flush_insert_def component_seq_def component_map_def component_zip_def
      check_row_Inr col_affinity_def component_columns_def)

lemma flush_insert_amount_Inl:
  assumes "flush_insert obj = Inr row" "sqlite_bind a = Inl e"
  shows "flush_insert (obj\<lparr>amount := a\<rparr>) = Inl e"
  using assms
  by (auto simp: flush_insert_def component_seq_def component_map_def component_zip_def exc_bind_def
      split: sum.splits)

lemma read_fields_Inr_iff:
  "(\<exists>obj. read_fields data = Inr obj) \<longleftrightarrow> list_all (has_key data) required_keys"
  by (cases data) (auto simp: read_fields_def required_keys_def has_key_def split: option.splits)

lemma read_component_to_dict:
  "read_fields (component_to_dict i row) = Inr (component_map sql_to_json row)"
  by (simp add: read_fields_def component_to_dict_def obj_lookup_def component_map_def)

lemma getitem_dict_id: "getitem (component_to_dict i c) ''id'' = Inr (JInt i)"
  by (simp add: component_to_dict_def obj_lookup_def)

lemma flush_insert_name_null:
  assumes "flush_insert obj = Inr row"
  shows "flush_insert (obj\<lparr>name := JNull\<rparr>) = Inl (IntegrityError ''name'')"
  using assms
  by (auto simp: flush_insert_def component_seq_def component_map_def component_zip_def check_row_def
      not_null_violation_def component_list_def component_columns_def col_affinity_def split: option.splits)

lemma read_fields_not_found: "read_fields data \<noteq> Inl NotFound"
  by (cases data) (auto simp: read_fields_def exc_bind_def split: option.splits sum.splits)

lemma flush_insert_not_found: "flush_insert obj \<noteq> Inl NotFound"
proof -
  have b: "sqlite_bind v \<noteq> Inl NotFound" for v by (cases v) auto
  show ?thesis
    by (auto simp: flush_insert_def component_seq_def component_map_def exc_bind_def check_row_def b
        split: sum.splits option.splits)
qed

end
