(* ===== verification/Component_Table.thy ===== *)
theory Component_Table
  imports Component_Model
begin

text \<open>
  The \<open>component\<close> table in SQLite as the program uses it through SQLAlchemy.
  \<open>id = db.Column(db.Integer, primary_key=True)\<close> makes \<open>id\<close> an alias of SQLite's
  rowid, so the table is an association list from rowid to row, kept in rowid order:
  that is the order in which \<open>Component.query.all()\<close> (a \<open>SELECT\<close> without
  \<open>ORDER BY\<close> on a rowid table) returns the rows.

  \<^item> \<open>new_rowid\<close> is SQLite's choice of a rowid for an \<open>INSERT\<close> that gives none:
    one more than the largest rowid in the table, 1 for an empty table. Only when the
    largest rowid is already \<open>2^63 - 1\<close> does SQLite pick an unused one at random; the
    model takes the least unused one as its representative, and fails with
    \<open>SqliteFull\<close> when there is none. The theorems below about a fresh rowid hold for
    any unused choice.
  \<^item> \<open>table_step\<close> performs one statement of the interface \<open>store_op\<close> the handlers
    use: \<open>INSERT\<close>, \<open>SELECT\<close> of all rows, \<open>SELECT\<close> by id, \<open>UPDATE\<close>,
    \<open>DELETE\<close>.
  \<^item> \<open>get_or_404\<close> is \<open>Component.query.get_or_404(component_id)\<close>: the id is bound as
    a statement parameter (so an id outside 64 bits raises \<open>OverflowError\<close> before any
    lookup), a missing row aborts with \<open>NotFound\<close>.
  \<^item> \<open>store_spec\<close> is the contract of the spec's Component Store (section 4.1) over a
    map from id to row; \<open>table_step_refines\<close> shows that every step of the table
    is a step of the contract and keeps the table invariant \<open>table_ok\<close>.
\<close>

type_synonym table = "(rowid \<times> sqlval component) list"

section \<open>Rowid assignment\<close>

definition max_rowid :: "table \<Rightarrow> rowid" where
  "max_rowid t = fold max (map fst t) 0"

definition new_rowid :: "table \<Rightarrow> rowid option" where
  "new_rowid t =
     (if max_rowid t < int64_max then Some (max_rowid t + 1)
      else find (\<lambda>r. r \<notin> fst ` set t) [1..int64_max])"

section \<open>Statements\<close>

definition table_insert :: "sqlval component \<Rightarrow> table \<Rightarrow> (rowid \<times> table) result" where
  "table_insert row t =
     (case new_rowid t of
        None \<Rightarrow> Inl SqliteFull
      | Some r \<Rightarrow> Inr (r, insort_key fst (r, row) t))"

definition table_update :: "rowid \<Rightarrow> sqlval component \<Rightarrow> table \<Rightarrow> table" where
  "table_update r row t = update_at r row t"

definition table_delete :: "rowid \<Rightarrow> table \<Rightarrow> table" where
  "table_delete r t = filter (\<lambda>(r', _). r' \<noteq> r) t"

datatype store_op =
    Insert "sqlval component"
  | SelectAll
  | Select rowid
  | Update rowid "sqlval component"
  | Delete rowid

datatype store_ret =
    Inserted rowid
  | Rows "(rowid \<times> sqlval component) list"
  | Row "sqlval component option"
  | Done

fun table_step :: "store_op \<Rightarrow> table \<Rightarrow> (store_ret \<times> table) result" where
  "table_step (Insert row) t = exc_bind (table_insert row t) (\<lambda>(r, t'). Inr (Inserted r, t'))"
| "table_step SelectAll t = Inr (Rows t, t)"
| "table_step (Select r) t = Inr (Row (map_of t r), t)"
| "table_step (Update r row) t = Inr (Done, table_update r row t)"
| "table_step (Delete r) t = Inr (Done, table_delete r t)"

definition get_or_404 :: "table \<Rightarrow> nat \<Rightarrow> sqlval component result" where
  "get_or_404 t i =
     (if \<not> in_int64 (int i) then Inl OverflowError
      else exc_bind (table_step (Select (int i)) t)
             (\<lambda>(ret, _). case ret of Row (Some c) \<Rightarrow> Inr c | _ \<Rightarrow> Inl NotFound))"

section \<open>Invariant and contract\<close>

definition table_ok :: "table \<Rightarrow> bool" where
  "table_ok t \<longleftrightarrow> keys_strict t \<and> list_all (\<lambda>(r, row). 1 \<le> r \<and> r \<le> int64_max \<and> row_ok row) t"

fun op_ok :: "store_op \<Rightarrow> bool" where
  "op_ok (Insert row) = row_ok row"
| "op_ok (Update _ row) = row_ok row"
| "op_ok _ = True"

inductive store_spec ::
  "store_op \<Rightarrow> (rowid \<rightharpoonup> sqlval component) \<Rightarrow> store_ret \<Rightarrow> (rowid \<rightharpoonup> sqlval component) \<Rightarrow> bool"
where
  spec_insert: "r \<notin> dom m \<Longrightarrow> 0 < r \<Longrightarrow> store_spec (Insert v) m (Inserted r) (m(r \<mapsto> v))"
| spec_select_all: "map_of rows = m \<Longrightarrow> distinct (map fst rows) \<Longrightarrow> store_spec SelectAll m (Rows rows) m"
| spec_select: "store_spec (Select r) m (Row (m r)) m"
| spec_update: "store_spec (Update r v) m Done (if r \<in> dom m then m(r \<mapsto> v) else m)"
| spec_delete: "store_spec (Delete r) m Done (m(r := None))"

declare max_rowid_def [model_defs] new_rowid_def [model_defs] table_insert_def [model_defs]
  table_update_def [model_defs] table_delete_def [model_defs] get_or_404_def [model_defs]
  update_at_def [model_defs] table_ok_def [model_defs]

section \<open>Lemmas\<close>

inductive_cases store_spec_insertE: "store_spec (Insert v) m ret m'"
inductive_simps store_spec_select_simps: "store_spec (Select r) m ret m'"

lemma fold_max_ge_init: "a \<le> fold max xs (a::int)"
proof (induction xs arbitrary: a)
  case Nil
  then show ?case by simp
next
  case (Cons x xs)
  have "max x a \<le> fold max xs (max x a)" by (rule Cons.IH)
  then show ?case by simp
qed

lemma fold_max_ge_elem: "x \<in> set xs \<Longrightarrow> x \<le> fold max xs (a::int)"
proof (induction xs arbitrary: a)
  case Nil
  then show ?case by simp
next
  case (Cons y xs)
  show ?case
  proof (cases "x = y")
    case True
    have "max y a \<le> fold max xs (max y a)" by (rule fold_max_ge_init)
    with True show ?thesis by simp
  next
    case False
    with Cons.prems have "x \<in> set xs" by simp
    then show ?thesis using Cons.IH by simp
  qed
qed

lemma max_rowid_ge: "k \<in> fst ` set t \<Longrightarrow> k \<le> max_rowid t" "0 \<le> max_rowid t"
  by (auto simp: max_rowid_def fold_max_ge_init fold_max_ge_elem)

lemma new_rowid_fresh:
  assumes "new_rowid t = Some r"
  shows "r \<notin> fst ` set t \<and> 1 \<le> r \<and> r \<le> int64_max"
proof (cases "max_rowid t < int64_max")
  case True
  with assms have "r = max_rowid t + 1" by (simp add: new_rowid_def)
  with True max_rowid_ge show ?thesis by fastforce
next
  case False
  with assms have "find (\<lambda>r. r \<notin> fst ` set t) [1..int64_max] = Some r"
    by (simp add: new_rowid_def)
  then show ?thesis by (auto simp: find_Some_iff)
qed

lemma table_insert_append:
  assumes "max_rowid t < int64_max"
  shows "table_insert row t = Inr (max_rowid t + 1, t @ [(max_rowid t + 1, row)])"
proof -
  have "\<forall>x \<in> set t. fst x < max_rowid t + 1"
    using max_rowid_ge(1) by fastforce
  with assms show ?thesis
    by (simp add: table_insert_def new_rowid_def insort_key_snoc)
qed

lemma max_rowid_upto:
  assumes "length rows = n"
  shows "max_rowid (zip [1..int n] rows) = int n"
proof -
  have "fold max [1..int n] 0 = int n"
  proof (induction n)
    case 0
    then show ?case by simp
  next
    case (Suc n)
    have "[1..int (Suc n)] = [1..int n] @ [int n + 1]" by (simp add: upto_rec2)
    with Suc show ?case by simp
  qed
  with assms show ?thesis by (simp add: max_rowid_def)
qed

lemma table_ok_iff:
  "table_ok t \<longleftrightarrow> keys_strict t \<and> (\<forall>(r, row) \<in> set t. 1 \<le> r \<and> r \<le> int64_max \<and> row_ok row)"
  by (simp add: table_ok_def list_all_iff)

lemma table_insert_ok:
  assumes "table_ok t" "row_ok row" "table_insert row t = Inr (r, t')"
  shows "table_ok t' \<and> map_of t' = (map_of t)(r \<mapsto> row) \<and> r \<notin> fst ` set t \<and> 1 \<le> r"
proof -
  obtain r0 where r0: "new_rowid t = Some r0" and eq: "r = r0" "t' = insort_key fst (r0, row) t"
    using assms(3) by (auto simp: table_insert_def split: option.splits)
  from new_rowid_fresh [OF r0] have fresh: "r0 \<notin> fst ` set t" "1 \<le> r0" "r0 \<le> int64_max" by auto
  have "keys_strict t'" using assms(1) fresh(1) eq(2) by (simp add: table_ok_iff keys_strict_insort_key)
  moreover have "\<forall>(k, v) \<in> set t'. 1 \<le> k \<and> k \<le> int64_max \<and> row_ok v"
    using assms(1,2) fresh eq(2) by (auto simp: table_ok_iff set_insort_key)
  ultimately show ?thesis using eq fresh by (simp add: table_ok_iff)
qed

lemma table_update_ok:
  "table_ok t \<Longrightarrow> row_ok row \<Longrightarrow> table_ok (table_update r row t)"
  unfolding table_ok_iff table_update_def
  by (fastforce dest: set_update_at)

lemma table_delete_ok: "table_ok t \<Longrightarrow> table_ok (table_delete r t)"
  by (auto simp: table_ok_iff table_delete_def keys_strict_filter)

text \<open>C16: every statement the handlers issue, applied to a table that satisfies the
  invariant (strictly increasing rowids within 1 to 2^63-1, every row fixed by its columns'
  affinities and its NOT NULL columns non-null) with a row that satisfies it, gives a table
  that satisfies the invariant.\<close>

theorem table_step_ok:
  assumes "table_ok t" "op_ok op" "table_step op t = Inr (ret, t')"
  shows "table_ok t'"
  using assms
proof (cases op)
  case (Insert row)
  with assms obtain r where "table_insert row t = Inr (r, t')" by auto
  with assms Insert show ?thesis using table_insert_ok by auto
qed (auto simp: table_update_ok table_delete_ok)

text \<open>C15: every successful statement on a table that satisfies the invariant is a step
  of the Component Store contract of spec section 4.1 on the map from id to row: an
  INSERT adds the row under a positive id that was unused, a SELECT of all rows returns the
  whole map without duplicate ids, a SELECT by id returns the row or nothing, an UPDATE
  overwrites an existing row and ignores a missing one, a DELETE removes the id.\<close>

theorem table_step_refines:
  assumes "table_ok t" "op_ok op" "table_step op t = Inr (ret, t')"
  shows "store_spec op (map_of t) ret (map_of t')"
proof (cases op)
  case (Insert row)
  with assms obtain r where ins: "table_insert row t = Inr (r, t')" and ret: "ret = Inserted r" by auto
  from table_insert_ok [OF assms(1) _ ins] Insert assms(2)
  have "map_of t' = (map_of t)(r \<mapsto> row)" "r \<notin> dom (map_of t)" "0 < r"
    by (auto simp: dom_map_of_conv_image_fst)
  then show ?thesis using Insert ret by (simp add: store_spec.spec_insert)
next
  case SelectAll
  with assms have "ret = Rows t" "t' = t" by auto
  moreover have "distinct (map fst t)" using assms(1) by (simp add: table_ok_iff keys_strict_distinct)
  ultimately show ?thesis using SelectAll by (simp add: store_spec.spec_select_all)
next
  case (Select r)
  with assms show ?thesis by (auto intro: store_spec.spec_select)
next
  case (Update r row)
  with assms have "ret = Done" "t' = table_update r row t" by auto
  moreover have "map_of (table_update r row t) = (if r \<in> dom (map_of t) then (map_of t)(r \<mapsto> row) else map_of t)"
    by (simp add: table_update_def dom_map_of_conv_image_fst)
  ultimately show ?thesis using Update by (simp add: store_spec.spec_update)
next
  case (Delete r)
  with assms have "ret = Done" "t' = table_delete r t" by auto
  then show ?thesis using Delete by (simp add: table_delete_def store_spec.spec_delete)
qed

lemma get_or_404_cases:
  "get_or_404 t i =
     (if \<not> in_int64 (int i) then Inl OverflowError
      else case map_of t (int i) of None \<Rightarrow> Inl NotFound | Some c \<Rightarrow> Inr c)"
  by (simp add: get_or_404_def split: option.splits)

end
