(* ===== verification/Api.thy ===== *)
theory Api
  imports Component_Table
begin

text \<open>
  The Flask application of \<^verbatim>\<open>src/main.py\<close>: its URL map, the five view functions,
  and how Flask turns a view's exception into a response.

  \<^item> \<open>parse_route\<close> is the URL map: \<open>/components\<close> and
    \<open>/components/<int:component_id>\<close>. Werkzeug's \<open>int\<close> converter accepts one or
    more decimal digits (no sign, leading zeros allowed) and yields a non-negative
    Python \<open>int\<close>, here a \<open>nat\<close>. Flask adds \<open>HEAD\<close> to every rule that
    allows \<open>GET\<close> and \<open>OPTIONS\<close> to every rule: \<open>HEAD\<close> runs the \<open>GET\<close> view
    and the response is sent without a body (\<open>head_strip\<close>), \<open>OPTIONS\<close> answers
    \<open>options_response\<close>. A matched path with another method answers 405, an unmatched
    path 404. Non-ASCII Unicode digits, which Python's \<open>\d\<close> also
    accepts, are not modelled.
  \<^item> \<open>get_components\<close>, \<open>create_component\<close>, \<open>get_component\<close>,
    \<open>update_component\<close>, \<open>delete_component\<close> are the view functions, each a
    function of the table and the request returning a response and the new table, or
    the exception the view raises. \<open>request.get_json()\<close> is the request's parsed body
    \<open>req_body\<close>; bodies that are not JSON are not modelled.
  \<^item> \<open>handle_exception\<close> is Flask's treatment of an exception: \<open>abort(404)\<close>'s
    \<open>NotFound\<close> becomes a 404 page; any other exception is re-raised to the caller
    when the app is in testing or debug mode (\<open>PROPAGATE_EXCEPTIONS\<close> unset) and
    becomes a 500 page otherwise. Either way the request's session is rolled back at
    teardown, so the table is the one before the request.
  \<^item> \<open>wsgi_app\<close> is one request; \<open>run\<close> a sequence of requests on one database;
    \<open>reachable\<close> the tables some sequence of requests produces from the empty table
    that \<open>db.create_all()\<close> creates. \<open>item_request\<close> and \<open>post_request\<close>
    build the requests a client sends to \<open>/components/<id>\<close> and \<open>/components\<close>.
  \<^item> The lemmas show that a request preserves the table invariant, that a request to
    \<open>/components/<i>\<close> reads and writes only row \<open>i\<close>
    (\<open>item_request_frame\<close>, \<open>item_request_local\<close>), and what a run of POSTs on the
    empty table produces (\<open>run_posts\<close>).
\<close>

section \<open>Requests, responses, configuration\<close>

text \<open>The request method. Werkzeug accepts any method token; \<open>Other s\<close> stands for a
  token other than the ones named here.\<close>

datatype http_method = GET | HEAD | POST | PUT | DELETE | PATCH | OPTIONS | Other string

record request =
  req_method :: http_method
  req_path :: string
  req_body :: json

datatype body = JsonBody json | EmptyBody | ErrorPage

record response =
  status :: nat
  resp_body :: body

datatype outcome = Response response | Raised exc

record flask_config =
  testing :: bool
  debug :: bool

section \<open>URL map\<close>

datatype route = Components | ComponentItem nat | NoRoute

fun strip_prefix :: "string \<Rightarrow> string \<Rightarrow> string option" where
  "strip_prefix [] s = Some s"
| "strip_prefix (c # cs) [] = None"
| "strip_prefix (c # cs) (d # ds) = (if c = d then strip_prefix cs ds else None)"

definition parse_route :: "string \<Rightarrow> route" where
  "parse_route p =
     (if p = ''/components'' then Components
      else case strip_prefix ''/components/'' p of
             None \<Rightarrow> NoRoute
           | Some ds \<Rightarrow> (case nat_of_dec ds of None \<Rightarrow> NoRoute | Some n \<Rightarrow> ComponentItem n))"

definition component_path :: "nat \<Rightarrow> string" where
  "component_path n = ''/components/'' @ dec_of_nat n"

text \<open>A request to \<open>/components/<id>\<close>.\<close>

definition item_request :: "http_method \<Rightarrow> nat \<Rightarrow> json \<Rightarrow> request" where
  "item_request m i b = \<lparr>req_method = m, req_path = component_path i, req_body = b\<rparr>"

text \<open>A \<open>POST /components\<close> with body \<open>d\<close>.\<close>

definition post_request :: "json \<Rightarrow> request" where
  "post_request d = \<lparr>req_method = POST, req_path = ''/components'', req_body = d\<rparr>"

section \<open>View functions\<close>

definition error_page :: "nat \<Rightarrow> response" where
  "error_page n = \<lparr>status = n, resp_body = ErrorPage\<rparr>"

definition json_response :: "nat \<Rightarrow> json \<Rightarrow> response" where
  "json_response n j = \<lparr>status = n, resp_body = JsonBody j\<rparr>"

text \<open>Flask's automatic \<open>OPTIONS\<close> response (\<open>provide_automatic_options\<close>): status
  200, the allowed methods in the \<open>Allow\<close> header (not modelled), an empty body.\<close>

definition options_response :: response where
  "options_response = \<lparr>status = 200, resp_body = EmptyBody\<rparr>"

definition get_components :: "table \<Rightarrow> (response \<times> table) result" where
  "get_components t =
     Inr (json_response 200 (JArr (map (\<lambda>(i, c). component_to_dict i c) t)), t)"

definition create_component :: "table \<Rightarrow> json \<Rightarrow> (response \<times> table) result" where
  "create_component t data =
     exc_bind (read_fields data) (\<lambda>obj.
     exc_bind (flush_insert obj) (\<lambda>row.
     exc_bind (table_insert row t) (\<lambda>(r, t').
     Inr (json_response 201 (component_to_dict r row), t'))))"

definition get_component :: "table \<Rightarrow> nat \<Rightarrow> (response \<times> table) result" where
  "get_component t i =
     exc_bind (get_or_404 t i) (\<lambda>c. Inr (json_response 200 (component_to_dict (int i) c), t))"

definition update_component :: "table \<Rightarrow> nat \<Rightarrow> json \<Rightarrow> (response \<times> table) result" where
  "update_component t i data =
     exc_bind (get_or_404 t i) (\<lambda>old.
     exc_bind (assign_fields data (component_map sql_to_json old)) (\<lambda>obj.
     exc_bind (flush_update old obj) (\<lambda>row.
     Inr (json_response 200 (component_to_dict (int i) row), table_update (int i) row t))))"

definition delete_component :: "table \<Rightarrow> nat \<Rightarrow> (response \<times> table) result" where
  "delete_component t i =
     exc_bind (get_or_404 t i) (\<lambda>_. Inr (\<lparr>status = 204, resp_body = EmptyBody\<rparr>, table_delete (int i) t))"

section \<open>Dispatch and exception handling\<close>

definition dispatch :: "table \<Rightarrow> request \<Rightarrow> (response \<times> table) result" where
  "dispatch t req =
     (case parse_route (req_path req) of
        Components \<Rightarrow>
          (case req_method req of
             GET \<Rightarrow> get_components t
           | HEAD \<Rightarrow> get_components t
           | POST \<Rightarrow> create_component t (req_body req)
           | OPTIONS \<Rightarrow> Inr (options_response, t)
           | _ \<Rightarrow> Inr (error_page 405, t))
      | ComponentItem i \<Rightarrow>
          (case req_method req of
             GET \<Rightarrow> get_component t i
           | HEAD \<Rightarrow> get_component t i
           | PUT \<Rightarrow> update_component t i (req_body req)
           | DELETE \<Rightarrow> delete_component t i
           | OPTIONS \<Rightarrow> Inr (options_response, t)
           | _ \<Rightarrow> Inr (error_page 405, t))
      | NoRoute \<Rightarrow> Inr (error_page 404, t))"

definition handle_exception :: "flask_config \<Rightarrow> exc \<Rightarrow> outcome" where
  "handle_exception cfg e =
     (if e = NotFound then Response (error_page 404)
      else if testing cfg \<or> debug cfg then Raised e
      else Response (error_page 500))"

text \<open>The response to a \<open>HEAD\<close> request is sent without its body.\<close>

definition head_strip :: "http_method \<Rightarrow> outcome \<Rightarrow> outcome" where
  "head_strip m out =
     (case out of
        Response r \<Rightarrow> if m = HEAD then Response (r\<lparr>resp_body := EmptyBody\<rparr>) else out
      | Raised e \<Rightarrow> out)"

definition wsgi_app :: "flask_config \<Rightarrow> table \<Rightarrow> request \<Rightarrow> outcome \<times> table" where
  "wsgi_app cfg t req =
     apfst (head_strip (req_method req))
       (case dispatch t req of
          Inl e \<Rightarrow> (handle_exception cfg e, t)
        | Inr (resp, t') \<Rightarrow> (Response resp, t'))"

fun run :: "flask_config \<Rightarrow> table \<Rightarrow> request list \<Rightarrow> outcome list \<times> table" where
  "run cfg t [] = ([], t)"
| "run cfg t (req # reqs) =
     (let (out, t') = wsgi_app cfg t req; (outs, t'') = run cfg t' reqs in (out # outs, t''))"

inductive reachable :: "flask_config \<Rightarrow> table \<Rightarrow> bool" for cfg where
  init: "reachable cfg []"
| step: "reachable cfg t \<Longrightarrow> wsgi_app cfg t req = (out, t') \<Longrightarrow> reachable cfg t'"

text \<open>The reference for \<open>update_component\<close>: full replacement, every column written
  as an \<open>INSERT\<close> of the new values would write it, with no comparison against the
  loaded row.\<close>

definition replace_component :: "table \<Rightarrow> nat \<Rightarrow> json \<Rightarrow> (response \<times> table) result" where
  "replace_component t i data =
     exc_bind (get_or_404 t i) (\<lambda>_.
     exc_bind (read_fields data) (\<lambda>obj.
     exc_bind (flush_insert obj) (\<lambda>row.
     Inr (json_response 200 (component_to_dict (int i) row), table_update (int i) row t))))"

definition production :: flask_config where
  "production = \<lparr>testing = False, debug = False\<rparr>"

declare parse_route_def [model_defs] component_path_def [model_defs] error_page_def [model_defs]
  json_response_def [model_defs] get_components_def [model_defs] create_component_def [model_defs]
  get_component_def [model_defs] update_component_def [model_defs] delete_component_def [model_defs]
  dispatch_def [model_defs] handle_exception_def [model_defs] wsgi_app_def [model_defs]
  production_def [model_defs] options_response_def [model_defs] head_strip_def [model_defs]
  replace_component_def [model_defs] item_request_def [model_defs]
  post_request_def [model_defs]

section \<open>Lemmas\<close>

lemma strip_prefix_append [simp]: "strip_prefix p (p @ s) = Some s"
  by (induction p) auto

lemma strip_prefix_Some: "strip_prefix p s = Some r \<Longrightarrow> s = p @ r"
  by (induction p s rule: strip_prefix.induct) (auto split: if_splits)

lemma parse_component_path [simp]: "parse_route (component_path n) = ComponentItem n"
  by (simp add: parse_route_def component_path_def)

lemma head_strip_other [simp]: "m \<noteq> HEAD \<Longrightarrow> head_strip m = id"
  by (auto simp: fun_eq_iff head_strip_def split: outcome.splits)

lemma wsgi_app_Inl:
  "dispatch t req = Inl e \<Longrightarrow> wsgi_app cfg t req = (head_strip (req_method req) (handle_exception cfg e), t)"
  by (simp add: wsgi_app_def)

lemma wsgi_app_Inr:
  "dispatch t req = Inr (resp, t') \<Longrightarrow> wsgi_app cfg t req = (head_strip (req_method req) (Response resp), t')"
  by (simp add: wsgi_app_def)

lemma flush_update_row_ok:
  "row_ok old \<Longrightarrow> flush_update old obj = Inr row \<Longrightarrow> row_ok row"
  by (metis flush_insert_row_ok flush_update_eq_insert)

lemma create_component_ok:
  "table_ok t \<Longrightarrow> create_component t data = Inr (resp, t') \<Longrightarrow> table_ok t'"
  by (auto simp: create_component_def dest: flush_insert_row_ok table_insert_ok)

lemma get_or_404_Inr: "get_or_404 t i = Inr c \<longleftrightarrow> in_int64 (int i) \<and> map_of t (int i) = Some c"
  by (auto simp: get_or_404_cases split: option.splits)

lemma table_ok_row: "table_ok t \<Longrightarrow> map_of t r = Some c \<Longrightarrow> row_ok c"
  by (auto simp: table_ok_iff dest: map_of_SomeD)

lemma table_ok_key: "table_ok t \<Longrightarrow> map_of t r = Some c \<Longrightarrow> in_int64 r \<and> 1 \<le> r"
  by (auto simp: table_ok_iff in_int64_def int64_min_def dest!: map_of_SomeD)

lemma update_component_ok:
  "table_ok t \<Longrightarrow> update_component t i data = Inr (resp, t') \<Longrightarrow> table_ok t'"
  by (auto simp: update_component_def get_or_404_Inr
      intro: table_update_ok dest: table_ok_row flush_update_row_ok)

lemma dispatch_ok:
  assumes "table_ok t" "dispatch t req = Inr (resp, t')"
  shows "table_ok t'"
  using assms
  by (auto simp: dispatch_def get_components_def get_component_def delete_component_def
      split: route.splits http_method.splits
      intro: table_delete_ok dest: create_component_ok update_component_ok)

lemma wsgi_app_ok: "table_ok t \<Longrightarrow> wsgi_app cfg t req = (out, t') \<Longrightarrow> table_ok t'"
  by (auto simp: wsgi_app_def split: sum.splits dest: dispatch_ok)

lemma reachable_table_ok: "reachable cfg t \<Longrightarrow> table_ok t"
proof (induction rule: reachable.induct)
  case init
  show ?case by (simp add: table_ok_def)
next
  case (step t req out t')
  then show ?case by (blast intro: wsgi_app_ok)
qed

lemma get_component_found:
  "in_int64 (int i) \<Longrightarrow> map_of t (int i) = Some c \<Longrightarrow>
   get_component t i = Inr (json_response 200 (component_to_dict (int i) c), t)"
  by (simp add: get_component_def get_or_404_cases)

lemma get_component_missing:
  "in_int64 (int i) \<Longrightarrow> map_of t (int i) = None \<Longrightarrow> get_component t i = Inl NotFound"
  by (simp add: get_component_def get_or_404_cases)

lemma wsgi_get_item:
  "wsgi_app cfg t \<lparr>req_method = GET, req_path = component_path i, req_body = b\<rparr> =
     (case get_component t i of Inl e \<Rightarrow> (handle_exception cfg e, t) | Inr (resp, t') \<Rightarrow> (Response resp, t'))"
  by (simp add: wsgi_app_def dispatch_def)

lemma wsgi_post:
  "wsgi_app cfg t \<lparr>req_method = POST, req_path = ''/components'', req_body = d\<rparr> =
     (case create_component t d of Inl e \<Rightarrow> (handle_exception cfg e, t) | Inr (resp, t') \<Rightarrow> (Response resp, t'))"
  by (simp add: wsgi_app_def dispatch_def parse_route_def)

lemma in_int64_rowid: "1 \<le> r \<Longrightarrow> r \<le> int64_max \<Longrightarrow> in_int64 (int (nat r))"
  by (simp add: in_int64_def int64_min_def)

lemma create_component_append:
  assumes "read_fields data = Inr obj" "flush_insert obj = Inr row" "max_rowid t < int64_max"
  shows "create_component t data =
           Inr (json_response 201 (component_to_dict (max_rowid t + 1) row), t @ [(max_rowid t + 1, row)])"
  using assms by (simp add: create_component_def table_insert_append)

lemma max_rowid_fresh: "map_of t (max_rowid t + 1) = None"
  using max_rowid_ge(1) [of "max_rowid t + 1" t] by (auto simp: map_of_eq_None_iff)

lemma dispatch_item:
  "dispatch t \<lparr>req_method = m, req_path = component_path i, req_body = b\<rparr> =
     (case m of GET \<Rightarrow> get_component t i | HEAD \<Rightarrow> get_component t i | PUT \<Rightarrow> update_component t i b
      | DELETE \<Rightarrow> delete_component t i | OPTIONS \<Rightarrow> Inr (options_response, t)
      | _ \<Rightarrow> Inr (error_page 405, t))"
  by (cases m) (simp_all add: dispatch_def)

lemma update_component_found:
  assumes "in_int64 (int i)" "map_of t (int i) = Some old" "row_ok old"
  shows "update_component t i data =
     exc_bind (read_fields data) (\<lambda>obj. exc_bind (flush_insert obj) (\<lambda>row.
       Inr (json_response 200 (component_to_dict (int i) row), table_update (int i) row t)))"
  using assms by (simp add: update_component_def get_or_404_cases assign_fields_overwrites flush_update_eq_insert)

text \<open>A request to \<open>/components/<i>\<close> reads and writes only the row \<open>i\<close>.\<close>

lemma item_request_frame:
  assumes "k \<noteq> int i"
  shows "map_of (snd (wsgi_app cfg t (item_request m i b))) k = map_of t k"
  using assms
  by (cases m) (auto simp: item_request_def wsgi_app_def dispatch_item get_component_def
      update_component_def delete_component_def get_or_404_cases table_update_def table_delete_def
      exc_bind_def split: option.splits sum.splits)

lemma item_request_local:
  assumes "map_of t (int i) = map_of u (int i)"
  shows "fst (wsgi_app cfg t (item_request m i b)) = fst (wsgi_app cfg u (item_request m i b)) \<and>
         map_of (snd (wsgi_app cfg t (item_request m i b))) (int i) =
           map_of (snd (wsgi_app cfg u (item_request m i b))) (int i)"
  using assms
  by (cases m) (auto simp: item_request_def wsgi_app_def dispatch_item get_component_def
      update_component_def delete_component_def get_or_404_cases table_update_def table_delete_def
      exc_bind_def dom_map_of_conv_image_fst [symmetric] split: option.splits sum.splits)

lemma update_component_missing:
  "in_int64 (int i) \<Longrightarrow> map_of t (int i) = None \<Longrightarrow> update_component t i data = Inl NotFound"
  by (simp add: update_component_def get_or_404_cases)

lemma delete_component_found:
  "in_int64 (int i) \<Longrightarrow> map_of t (int i) = Some c \<Longrightarrow>
   delete_component t i = Inr (\<lparr>status = 204, resp_body = EmptyBody\<rparr>, table_delete (int i) t)"
  by (simp add: delete_component_def get_or_404_cases)

lemma delete_component_missing:
  "in_int64 (int i) \<Longrightarrow> map_of t (int i) = None \<Longrightarrow> delete_component t i = Inl NotFound"
  by (simp add: delete_component_def get_or_404_cases)

lemma handle_not_found [simp]: "handle_exception cfg NotFound = Response (error_page 404)"
  by (simp add: handle_exception_def)

lemma dispatch_components:
  "dispatch t \<lparr>req_method = m, req_path = ''/components'', req_body = b\<rparr> =
     (case m of GET \<Rightarrow> get_components t | HEAD \<Rightarrow> get_components t | POST \<Rightarrow> create_component t b
      | OPTIONS \<Rightarrow> Inr (options_response, t) | _ \<Rightarrow> Inr (error_page 405, t))"
  by (cases m) (simp_all add: dispatch_def parse_route_def)

lemma post_well_typed:
  assumes "read_fields data = Inr obj" "well_typed obj" "max_rowid t < int64_max"
  shows "\<exists>row. wsgi_app cfg t \<lparr>req_method = POST, req_path = ''/components'', req_body = data\<rparr> =
       (Response (json_response 201 (component_to_dict (max_rowid t + 1) row)), t @ [(max_rowid t + 1, row)]) \<and>
     component_map sql_to_json row = obj"
proof -
  obtain row where row: "flush_insert obj = Inr row" "component_map sql_to_json row = obj"
    using flush_insert_echo [OF assms(2)] by blast
  then show ?thesis
    using create_component_append [OF assms(1) row(1) assms(3)] by (auto simp: wsgi_post)
qed

lemma run_snoc:
  "run cfg t (xs @ [x]) =
     (fst (run cfg t xs) @ [fst (wsgi_app cfg (snd (run cfg t xs)) x)], snd (wsgi_app cfg (snd (run cfg t xs)) x))"
  by (induction xs arbitrary: t) (auto split: prod.splits)

lemma run_posts:
  assumes "list_all (\<lambda>d. \<exists>obj. read_fields d = Inr obj \<and> well_typed obj) ds" "int (length ds) \<le> int64_max"
  shows "\<exists>rows. snd (run cfg [] (map post_request ds)) = zip [1..int (length ds)] rows \<and>
           list_all2 (\<lambda>d row. read_fields d = Inr (component_map sql_to_json row)) ds rows"
  using assms
proof (induction ds rule: rev_induct)
  case Nil
  then show ?case by simp
next
  case (snoc d ds)
  then obtain rows where t: "snd (run cfg [] (map post_request ds)) = zip [1..int (length ds)] rows"
    and rel: "list_all2 (\<lambda>d row. read_fields d = Inr (component_map sql_to_json row)) ds rows"
    by auto
  have len: "length rows = length ds" using rel by (simp add: list_all2_lengthD)
  obtain obj where rf: "read_fields d = Inr obj" and wt: "well_typed obj" using snoc.prems(1) by auto
  have room: "max_rowid (zip [1..int (length ds)] rows) < int64_max"
    using snoc.prems(2) max_rowid_upto [OF len] by simp
  obtain row where post: "wsgi_app cfg (zip [1..int (length ds)] rows) (post_request d) =
      (Response (json_response 201 (component_to_dict (int (length ds) + 1) row)),
       zip [1..int (length ds)] rows @ [(int (length ds) + 1, row)])"
    and echo: "component_map sql_to_json row = obj"
    using post_well_typed [OF rf wt room] max_rowid_upto [OF len] by (auto simp: post_request_def)
  have "zip [1..int (length ds)] rows @ [(int (length ds) + 1, row)] = zip [1..int (length (ds @ [d]))] (rows @ [row])"
    using len by (simp add: upto_rec2)
  then show ?case
    using rel rf echo t post by (auto simp: run_snoc list_all2_appendI)
qed

end
