(* ===== verification/Smoke_Tests.thy ===== *)
theory Smoke_Tests
  imports Api
begin

text \<open>
  The pytest suite of \<^verbatim>\<open>src/tests\<close> run against the model.
  The fixtures of \<^verbatim>\<open>conftest.py\<close> are \<open>test_config\<close> (\<open>TESTING = True\<close>, so Flask
  re-raises a view's exception to the test client), the empty table that
  \<open>db.create_all()\<close> creates for each test, and \<open>sample_component\<close>, the request
  body most tests post. Each test function of \<^verbatim>\<open>test_smoke.py\<close> is a definition of
  the same name whose value is the test's result: \<open>call\<close> is the test client's request,
  \<open>check\<close> an \<open>assert\<close>, \<open>with_json\<close> and \<open>with_key\<close> are \<open>json.loads\<close> and
  \<open>data[key]\<close>, which may raise. \<open>smoke_suite_passes\<close> evaluates the suite:
  every test passes but \<open>test_create_component_without_required_fields\<close>, which ends with
  the re-raised \<open>KeyError\<close> (\<open>required_fields_test_errors\<close>).
\<close>

definition test_config :: flask_config where
  "test_config = \<lparr>testing = True, debug = False\<rparr>"

definition sample_component :: json where
  "sample_component =
     JObj [(''name'', JStr ''Arduino Uno''), (''type'', JStr ''Microcontroller''),
           (''version'', JStr ''R3''), (''description'', JStr ''ATmega328P based microcontroller board''),
           (''amount'', JInt 5), (''datasheet_url'', JStr ''https://example.com/arduino-uno.pdf'')]"

definition updated_component :: json where
  "updated_component =
     JObj [(''name'', JStr ''Arduino Uno''), (''type'', JStr ''Microcontroller''),
           (''version'', JStr ''R3''), (''description'', JStr ''Updated description''),
           (''amount'', JInt 10), (''datasheet_url'', JStr ''https://example.com/arduino-uno.pdf'')]"

definition led_component :: json where
  "led_component =
     JObj [(''name'', JStr ''Generic LED''), (''type'', JStr ''LED''), (''description'', JStr ''Red LED 5mm''),
           (''amount'', JInt 100), (''datasheet_url'', JStr ''https://example.com/led.pdf'')]"

definition incomplete_component :: json where
  "incomplete_component = JObj [(''name'', JStr ''Test Component'')]"

section \<open>The test client and assertions\<close>

text \<open>A test's result: it passes, an \<open>assert\<close> fails, or an exception escapes
  (from the application, re-raised by the test client under \<open>TESTING\<close>, or from
  the test's own code).\<close>

datatype test_result = Pass | Fail | Error exc

text \<open>\<open>client.get/post/put/delete\<close> on the database \<open>t\<close>, continued by the rest
  of the test with the response and the database after the request.\<close>

definition call ::
  "table \<Rightarrow> http_method \<Rightarrow> string \<Rightarrow> json \<Rightarrow> (response \<Rightarrow> table \<Rightarrow> test_result) \<Rightarrow> test_result"
where
  "call t m p b k =
     (case wsgi_app test_config t \<lparr>req_method = m, req_path = p, req_body = b\<rparr> of
        (Raised e, _) \<Rightarrow> Error e
      | (Response r, t') \<Rightarrow> k r t')"

definition check :: "bool \<Rightarrow> test_result \<Rightarrow> test_result" where
  "check b k = (if b then k else Fail)"

text \<open>\<open>json.loads(response.data)\<close>: an empty body or an HTML error page is not JSON.\<close>

definition loads :: "response \<Rightarrow> json result" where
  "loads r = (case resp_body r of JsonBody j \<Rightarrow> Inr j | _ \<Rightarrow> Inl JSONDecodeError)"

definition with_json :: "response \<Rightarrow> (json \<Rightarrow> test_result) \<Rightarrow> test_result" where
  "with_json r k = (case loads r of Inl e \<Rightarrow> Error e | Inr j \<Rightarrow> k j)"

definition with_key :: "json \<Rightarrow> string \<Rightarrow> (json \<Rightarrow> test_result) \<Rightarrow> test_result" where
  "with_key d key k = (case getitem d key of Inl e \<Rightarrow> Error e | Inr v \<Rightarrow> k v)"

text \<open>\<open>assert data[key] == expected[key]\<close> on JSON values.\<close>

definition assert_same_key :: "json \<Rightarrow> json \<Rightarrow> string \<Rightarrow> test_result \<Rightarrow> test_result" where
  "assert_same_key d expected key k = with_key d key (\<lambda>v. with_key expected key (\<lambda>w. check (v = w) k))"

text \<open>\<open>len(data)\<close> and \<open>isinstance(data, list)\<close>.\<close>

fun py_len :: "json \<Rightarrow> nat result" where
  "py_len (JArr xs) = Inr (length xs)"
| "py_len (JObj kvs) = Inr (length (remdups (map fst kvs)))"
| "py_len (JStr s) = Inr (length s)"
| "py_len _ = Inl TypeError"

fun is_list :: "json \<Rightarrow> bool" where
  "is_list (JArr _) = True"
| "is_list _ = False"

text \<open>\<open>f'/components/{component_id}'\<close> for the id a response returned. The created id is
  always an \<open>int\<close>; other scalars are formatted as Python's \<open>str\<close> formats them, and
  containers, which never occur here, as \<open>None\<close>.\<close>

fun item_path :: "json \<Rightarrow> string" where
  "item_path (JInt n) = ''/components/'' @ dec_of_int n"
| "item_path (JStr s) = ''/components/'' @ s"
| "item_path (JBool b) = ''/components/'' @ (if b then ''True'' else ''False'')"
| "item_path _ = ''/components/None''"

text \<open>\<open>d = dict.copy(); d[key] = v\<close>: an existing key keeps its position.\<close>

definition json_set :: "json \<Rightarrow> string \<Rightarrow> json \<Rightarrow> json" where
  "json_set d key v =
     (case d of
        JObj kvs \<Rightarrow>
          if key \<in> set (map fst kvs) then JObj (map (\<lambda>(k, w). (k, if k = key then v else w)) kvs)
          else JObj (kvs @ [(key, v)])
      | _ \<Rightarrow> d)"

section \<open>The tests\<close>

definition test_app_is_testing :: bool where
  "test_app_is_testing \<longleftrightarrow> testing test_config = True"

definition test_get_empty_components_list :: test_result where
  "test_get_empty_components_list =
     call [] GET ''/components'' JNull (\<lambda>r t.
     check (status r = 200) (with_json r (\<lambda>d.
     check (is_list d) (case py_len d of Inl e \<Rightarrow> Error e | Inr n \<Rightarrow> check (n = 0) Pass))))"

definition test_create_component :: test_result where
  "test_create_component =
     call [] POST ''/components'' sample_component (\<lambda>r t.
     check (status r = 201) (with_json r (\<lambda>d.
     assert_same_key d sample_component ''name'' (assert_same_key d sample_component ''type''
       (assert_same_key d sample_component ''version'' (assert_same_key d sample_component ''amount''
       (check (has_key d ''id'') Pass)))))))"

definition test_get_component_by_id :: test_result where
  "test_get_component_by_id =
     call [] POST ''/components'' sample_component (\<lambda>cr t. with_json cr (\<lambda>cd. with_key cd ''id'' (\<lambda>cid.
     call t GET (item_path cid) JNull (\<lambda>r t.
     check (status r = 200) (with_json r (\<lambda>d.
     with_key d ''id'' (\<lambda>did. check (did = cid) (assert_same_key d sample_component ''name'' Pass))))))))"

definition test_get_nonexistent_component :: test_result where
  "test_get_nonexistent_component =
     call [] GET ''/components/999'' JNull (\<lambda>r t. check (status r = 404) Pass)"

definition test_update_component :: test_result where
  "test_update_component =
     call [] POST ''/components'' sample_component (\<lambda>cr t. with_json cr (\<lambda>cd. with_key cd ''id'' (\<lambda>cid.
     call t PUT (item_path cid) updated_component (\<lambda>r t.
     check (status r = 200) (with_json r (\<lambda>d.
     with_key d ''amount'' (\<lambda>a. check (a = JInt 10)
       (with_key d ''description'' (\<lambda>x. check (x = JStr ''Updated description'') Pass)))))))))"

definition test_delete_component :: test_result where
  "test_delete_component =
     call [] POST ''/components'' sample_component (\<lambda>cr t. with_json cr (\<lambda>cd. with_key cd ''id'' (\<lambda>cid.
     call t DELETE (item_path cid) JNull (\<lambda>r t.
     check (status r = 204)
     (call t GET (item_path cid) JNull (\<lambda>g t. check (status g = 404) Pass))))))"

definition test_list_multiple_components :: test_result where
  "test_list_multiple_components =
     call [] POST ''/components'' sample_component (\<lambda>_ t.
     (let second = json_set (json_set sample_component ''name'' (JStr ''Raspberry Pi 4''))
                     ''type'' (JStr ''Single Board Computer'') in
     call t POST ''/components'' second (\<lambda>_ t.
     call t GET ''/components'' JNull (\<lambda>r t.
     check (status r = 200) (with_json r (\<lambda>d.
     case py_len d of Inl e \<Rightarrow> Error e | Inr n \<Rightarrow> check (n = 2) Pass))))))"

definition test_create_component_without_required_fields :: test_result where
  "test_create_component_without_required_fields =
     call [] POST ''/components'' incomplete_component (\<lambda>r t. check (400 \<le> status r) Pass)"

definition test_create_component_with_optional_version :: test_result where
  "test_create_component_with_optional_version =
     call [] POST ''/components'' led_component (\<lambda>r t.
     check (status r = 201) (with_json r (\<lambda>d.
     with_key d ''version'' (\<lambda>v. check (v = JNull \<or> v = JStr []) Pass))))"

declare test_config_def [model_defs] sample_component_def [model_defs] updated_component_def [model_defs]
  led_component_def [model_defs] incomplete_component_def [model_defs] call_def [model_defs]
  check_def [model_defs] loads_def [model_defs] with_json_def [model_defs] with_key_def [model_defs]
  assert_same_key_def [model_defs] json_set_def [model_defs]

section \<open>Lemmas\<close>

lemmas test_defs = test_app_is_testing_def test_get_empty_components_list_def test_create_component_def
  test_get_component_by_id_def test_get_nonexistent_component_def test_update_component_def
  test_delete_component_def test_list_multiple_components_def
  test_create_component_without_required_fields_def test_create_component_with_optional_version_def

text \<open>The suite run against the model: every test passes except
  \<open>test_create_component_without_required_fields\<close>, which ends with the \<open>KeyError\<close>
  that Flask re-raises into the test client under \<open>TESTING\<close>.\<close>

lemma smoke_suite_passes:
  "test_app_is_testing \<and> test_get_empty_components_list = Pass \<and> test_create_component = Pass \<and>
   test_get_component_by_id = Pass \<and> test_get_nonexistent_component = Pass \<and>
   test_update_component = Pass \<and> test_delete_component = Pass \<and>
   test_list_multiple_components = Pass \<and> test_create_component_with_optional_version = Pass"
proof (intro conjI)
  show "test_app_is_testing" by (simp add: test_defs model_defs)
  show "test_get_empty_components_list = Pass" by (simp add: test_defs model_defs)
  show "test_create_component = Pass" by (simp add: test_defs model_defs)
  show "test_get_component_by_id = Pass" by (simp add: test_defs model_defs)
  show "test_get_nonexistent_component = Pass" by (simp add: test_defs model_defs)
  show "test_update_component = Pass" by (simp add: test_defs model_defs)
  show "test_delete_component = Pass" by (simp add: test_defs model_defs)
  show "test_list_multiple_components = Pass" by (simp add: test_defs model_defs)
  show "test_create_component_with_optional_version = Pass" by (simp add: test_defs model_defs)
qed

lemma required_fields_test_errors:
  "test_create_component_without_required_fields = Error (KeyError ''type'')"
  by (simp add: test_defs model_defs)

end
