(* ===== verification/Spec2Isabelle.thy ===== *)
theory Spec2Isabelle
  imports Smoke_Tests
begin

text \<open>
  \<^bold>\<open>ComponentInventory in Isabelle/HOL.\<close>
  The program (\<^verbatim>\<open>src/main.py\<close>) is a Flask application with one SQLAlchemy model,
  \<open>Component\<close>, stored in SQLite, and five view functions: list, create, read, update
  and delete. A request flows through four parts, each a theory of this development:

  \<^enum> \<open>Json\<close> and \<open>Sqlite_Value\<close>: the values involved. The request body is the
    JSON value \<open>request.get_json()\<close> returns (\<open>json\<close>); \<open>data[k]\<close> and
    \<open>data.get(k)\<close> are \<open>getitem\<close> and \<open>dict_get\<close>, with Python's \<open>KeyError\<close>,
    \<open>TypeError\<close> and \<open>AttributeError\<close>. A stored value is \<open>sqlval\<close>; sqlite3's
    parameter binding is \<open>sqlite_bind\<close> (an \<open>int\<close> outside 64 bits raises
    \<open>OverflowError\<close>, a list or dict \<open>InterfaceError\<close>), SQLite's column affinity
    is \<open>apply_affinity\<close> (TEXT columns turn integers into decimal text, INTEGER
    columns turn decimal text into integers), and \<open>sql_to_json\<close> reads a value back.
    Integers are \<open>64 word\<close> and read with \<open>sint\<close>.
  \<^enum> \<open>Component_Model\<close>: the class \<open>Component\<close> (lines 8--18). Its six attributes
    are the record \<open>'v component\<close>, its column declarations \<open>component_columns\<close>.
    \<open>read_fields\<close> is the constructor call of \<open>create_component\<close> (lines 28--35),
    \<open>assign_fields\<close> the attribute writes of \<open>update_component\<close> (49--54),
    \<open>flush_insert\<close> and \<open>flush_update\<close> the \<open>INSERT\<close> and the dirty-checked
    \<open>UPDATE\<close> issued at \<open>db.session.commit()\<close>, \<open>component_to_dict\<close> lines 65--74.
  \<^enum> \<open>Component_Table\<close>: the SQLite table, an association list from rowid (the
    \<open>id\<close> primary key) to row in rowid order, with SQLite's rowid assignment
    \<open>new_rowid\<close> (largest rowid plus one), the statements \<open>table_step\<close> over the
    interface datatype \<open>store_op\<close>, and \<open>get_or_404\<close>. Its contract is the
    inductive relation \<open>store_spec\<close> over a map, the spec's Component Store.
  \<^enum> \<open>Api\<close>: the URL map \<open>parse_route\<close>, the view functions \<open>get_components\<close>,
    \<open>create_component\<close>, \<open>get_component\<close>, \<open>update_component\<close>,
    \<open>delete_component\<close>, the dispatcher \<open>dispatch\<close>, Flask's exception handling
    \<open>handle_exception\<close> and one request \<open>wsgi_app\<close>. State is passed explicitly:
    a request maps a table to a response (or a re-raised exception) and a table. A
    failing request returns the table it was given: the session is rolled back.
    \<open>run\<close> runs a sequence of requests; \<open>reachable\<close> is the inductive set of
    tables some sequence produces from the empty table.
  \<^enum> \<open>Smoke_Tests\<close>: the pytest fixtures of \<^verbatim>\<open>conftest.py\<close> and every test
    function of \<^verbatim>\<open>test_smoke.py\<close> as a definition whose value is the test's result
    (pass, failed assertion, or escaping exception) on the model.

  What the theorems show. \<open>Component_Table\<close> (C15, C16): every table statement
  refines the contract \<open>store_spec\<close> and keeps the table invariant \<open>table_ok\<close>
  (rowids strictly increasing, within \<open>1..2^63-1\<close>, every row fixed by its columns'
  affinities and non-null where declared \<open>nullable=False\<close>). \<open>Component_Model\<close>
  (helper lemmas): the dirty-checked \<open>UPDATE\<close> writes the same row as an \<open>INSERT\<close>
  of the new values; well-typed values are stored and read back unchanged; decimal text and
  64-bit integers convert into each other. \<open>Sqlite_Value\<close>: a digit string parses to
  n exactly when it is zeros followed by the decimal text of n. \<open>Smoke_Tests\<close>
  (lemmas): the test suite passes on the model except the required-fields test, which ends
  with the re-raised \<open>KeyError\<close>. This theory: the end-to-end behaviour of the HTTP
  interface on every reachable table: create then read under a fresh id (C1), update then
  read as full replacement (C2), delete then read (C3), unknown ids (C4), the invariant
  of reachable tables (C5), read-only GETs (C12), routing (C13) and the methods each rule
  allows, with HEAD and OPTIONS (C14); the update view equals a full rewrite (C17), a PUT of
  a GET's body changes nothing (C18), listing order is creation order (C20), N creates on
  the empty store list N matching records (C22), and requests on different ids commute
  (C21); and the places where the code and the spec differ: ids are reused after the
  largest is deleted (C9), a missing field is a server error and not a validation error on
  POST (C6) and on PUT (C23), a null name is rejected only by the NOT NULL constraint, as a
  500 (C24), \<open>description\<close> and \<open>datasheet_url\<close> may be null (C8), ids beyond 64
  bits answer 500 rather than 404 (C10), values sqlite3 cannot bind answer 500 (C11), and a
  string \<open>amount\<close> is accepted (C19). An integer amount is stored exactly when it fits
  in 64 bits, and is then read back unchanged (C25).

  Bounds. No fuel is needed: every definition is structurally recursive or a
  \<^theory_text>\<open>fun\<close> with an automatic termination proof, and a request is a finite
  composition of them. The only bound is SQLite's 64-bit integer range; theorems about
  creating a row assume the largest rowid is below \<open>2^63 - 1\<close>, beyond which SQLite
  switches to a random choice that the model represents by the least unused rowid.

  Not modelled. Flask and Werkzeug request parsing below the parsed JSON value
  (malformed bodies, content types), JSON fractions and exponents, SQLite's reading of
  real-number text in INTEGER columns (real literals, numerals beyond 64 bits and
  white-space-padded numerals are kept as text, where SQLite stores an integer or a REAL;
  C19 is stated only for the inputs the model gets right), non-ASCII digits in the URL,
  the \<open>Allow\<close> header of OPTIONS responses,
  concurrency inside a request (each request is atomic in the model, as its
  transaction is; interleavings of whole requests are sequences of requests, and C25
  shows that requests on different ids commute),
  the database file and engine configuration, and \<open>app.run\<close>.
\<close>

definition sample_obj :: "json component" where
  "sample_obj = \<lparr>name = JStr ''Arduino Uno'', type = JStr ''Microcontroller'', version = JStr ''R3'',
     description = JStr ''ATmega328P based microcontroller board'', amount = JInt 5,
     datasheet_url = JStr ''https://example.com/arduino-uno.pdf''\<rparr>"

definition sample_row :: "sqlval component" where
  "sample_row = \<lparr>name = SText ''Arduino Uno'', type = SText ''Microcontroller'', version = SText ''R3'',
     description = SText ''ATmega328P based microcontroller board'', amount = SInt 5,
     datasheet_url = SText ''https://example.com/arduino-uno.pdf''\<rparr>"

definition updated_obj :: "json component" where
  "updated_obj = \<lparr>name = JStr ''Arduino Uno'', type = JStr ''Microcontroller'', version = JStr ''R3'',
     description = JStr ''Updated description'', amount = JInt 10,
     datasheet_url = JStr ''https://example.com/arduino-uno.pdf''\<rparr>"

definition led_obj :: "json component" where
  "led_obj = \<lparr>name = JStr ''Generic LED'', type = JStr ''LED'', version = JNull,
     description = JStr ''Red LED 5mm'', amount = JInt 100, datasheet_url = JStr ''https://example.com/led.pdf''\<rparr>"

definition bare_payload :: json where
  "bare_payload = JObj [(''name'', JStr ''Resistor''), (''type'', JStr ''Passive''), (''description'', JNull),
     (''amount'', JInt 50), (''datasheet_url'', JNull)]"

definition bare_obj :: "json component" where
  "bare_obj = \<lparr>name = JStr ''Resistor'', type = JStr ''Passive'', version = JNull,
     description = JNull, amount = JInt 50, datasheet_url = JNull\<rparr>"

definition huge_amount_payload :: json where
  "huge_amount_payload = JObj [(''name'', JStr ''Arduino Uno''), (''type'', JStr ''Microcontroller''),
     (''description'', JStr ''x''), (''amount'', JInt 9223372036854775808), (''datasheet_url'', JStr ''u'')]"

definition huge_amount_obj :: "json component" where
  "huge_amount_obj = \<lparr>name = JStr ''Arduino Uno'', type = JStr ''Microcontroller'', version = JNull,
     description = JStr ''x'', amount = JInt 9223372036854775808, datasheet_url = JStr ''u''\<rparr>"

definition string_amount_payload :: json where
  "string_amount_payload = JObj [(''name'', JStr ''Capacitor''), (''type'', JStr ''Passive''),
     (''description'', JStr ''100nF ceramic''), (''amount'', JStr ''12''), (''datasheet_url'', JNull)]"

definition string_amount_obj :: "json component" where
  "string_amount_obj = \<lparr>name = JStr ''Capacitor'', type = JStr ''Passive'', version = JNull,
     description = JStr ''100nF ceramic'', amount = JStr ''12'', datasheet_url = JNull\<rparr>"

definition null_name_payload :: json where
  "null_name_payload = JObj [(''name'', JNull), (''type'', JStr ''Microcontroller''),
     (''description'', JStr ''x''), (''amount'', JInt 1), (''datasheet_url'', JStr ''u'')]"

definition null_name_obj :: "json component" where
  "null_name_obj = \<lparr>name = JNull, type = JStr ''Microcontroller'', version = JNull,
     description = JStr ''x'', amount = JInt 1, datasheet_url = JStr ''u''\<rparr>"

definition max_amount_payload :: json where
  "max_amount_payload = JObj [(''name'', JStr ''Resistor''), (''type'', JStr ''Passive''),
     (''description'', JStr ''x''), (''amount'', JInt 9223372036854775807), (''datasheet_url'', JNull)]"

definition max_amount_obj :: "json component" where
  "max_amount_obj = \<lparr>name = JStr ''Resistor'', type = JStr ''Passive'', version = JNull,
     description = JStr ''x'', amount = JInt 9223372036854775807, datasheet_url = JNull\<rparr>"

lemma post_server_error:
  assumes "create_component t data = Inl e"
  shows "wsgi_app production t \<lparr>req_method = POST, req_path = ''/components'', req_body = data\<rparr> =
           (Response (error_page 500), t) \<and>
         wsgi_app test_config t \<lparr>req_method = POST, req_path = ''/components'', req_body = data\<rparr> =
           (Raised e, t)"
proof -
  have "e \<noteq> NotFound"
    using assms read_fields_not_found [of data] flush_insert_not_found
    by (auto simp: create_component_def exc_bind_eq_Inl table_insert_def split: option.splits prod.splits)
  with assms show ?thesis by (simp add: wsgi_post handle_exception_def production_def test_config_def)
qed

lemma put_server_error:
  assumes "update_component t i data = Inl e" "e \<noteq> NotFound"
  shows "wsgi_app production t (item_request PUT i data) = (Response (error_page 500), t) \<and>
         wsgi_app test_config t (item_request PUT i data) = (Raised e, t)"
  using assms
  by (simp add: item_request_def wsgi_app_def dispatch_item handle_exception_def production_def test_config_def)

lemma post_sample:
  "wsgi_app cfg [] \<lparr>req_method = POST, req_path = ''/components'', req_body = sample_component\<rparr> =
     (Response (json_response 201 (component_to_dict 1 sample_row)), [(1, sample_row)])"
  by (simp add: model_defs sample_component_def sample_row_def)

lemma reachable_sample: "reachable cfg [(1, sample_row)]"
  using reachable.step [OF reachable.init post_sample] .

section \<open>Create, read, update, delete\<close>

text \<open>C1: on any reachable table with room for another rowid, POSTing a well-typed body
  creates a row under a positive id that no row of the table had, adds exactly that row
  and leaves every other id as it was, answers 201 with the stored record, the stored
  values equal the posted ones, and a GET of \<open>/components/<id>\<close> answers 200 with the
  same record.\<close>

theorem create_then_get:
  assumes "reachable cfg t" "read_fields data = Inr obj" "well_typed obj" "max_rowid t < int64_max"
  shows "\<exists>r row t'.
     wsgi_app cfg t \<lparr>req_method = POST, req_path = ''/components'', req_body = data\<rparr> =
       (Response (json_response 201 (component_to_dict r row)), t') \<and>
     component_map sql_to_json row = obj \<and> 0 < r \<and>
     map_of t r = None \<and> map_of t' = (map_of t)(r \<mapsto> row) \<and>
     fst (wsgi_app cfg t' \<lparr>req_method = GET, req_path = component_path (nat r), req_body = JNull\<rparr>) =
       Response (json_response 200 (component_to_dict r row))"
proof -
  obtain row where row: "flush_insert obj = Inr row" "component_map sql_to_json row = obj"
    using flush_insert_echo [OF assms(3)] by blast
  let ?r = "max_rowid t + 1"
  let ?t' = "t @ [(?r, row)]"
  have post: "wsgi_app cfg t \<lparr>req_method = POST, req_path = ''/components'', req_body = data\<rparr> =
      (Response (json_response 201 (component_to_dict ?r row)), ?t')"
    using create_component_append [OF assms(2) row(1) assms(4)] by (simp add: wsgi_post)
  have r: "1 \<le> ?r" "?r \<le> int64_max" using max_rowid_ge(2) [of t] assms(4) by auto
  have m: "map_of ?t' ?r = Some row" using max_rowid_fresh [of t] by (simp add: map_add_def)
  have i: "int (nat ?r) = ?r" using r by simp
  have "get_component ?t' (nat ?r) = Inr (json_response 200 (component_to_dict ?r row), ?t')"
    using get_component_found [of "nat ?r" ?t' row] in_int64_rowid [OF r] m unfolding i by blast
  then have "fst (wsgi_app cfg ?t' \<lparr>req_method = GET, req_path = component_path (nat ?r), req_body = JNull\<rparr>) =
       Response (json_response 200 (component_to_dict ?r row))"
    by (simp add: wsgi_get_item)
  moreover have "map_of t ?r = None" by (rule max_rowid_fresh)
  moreover then have "map_of ?t' = (map_of t)(?r \<mapsto> row)"
    by (auto simp: map_add_def fun_eq_iff split: option.splits)
  ultimately show ?thesis using post row(2) r by fastforce
qed

theorem create_then_get_witness:
  "reachable test_config [] \<and> read_fields sample_component = Inr sample_obj \<and> well_typed sample_obj \<and>
   max_rowid [] < int64_max \<and>
   (\<exists>r row t'.
     wsgi_app test_config [] \<lparr>req_method = POST, req_path = ''/components'', req_body = sample_component\<rparr> =
       (Response (json_response 201 (component_to_dict r row)), t') \<and>
     component_map sql_to_json row = sample_obj \<and> 0 < r \<and>
     map_of ([] :: table) r = None \<and> map_of t' = (map_of [])(r \<mapsto> row) \<and>
     fst (wsgi_app test_config t' \<lparr>req_method = GET, req_path = component_path (nat r), req_body = JNull\<rparr>) =
       Response (json_response 200 (component_to_dict r row)))"
proof -
  have h: "reachable test_config []" "read_fields sample_component = Inr sample_obj"
    "well_typed sample_obj" "max_rowid [] < int64_max"
    by (auto intro: reachable.init simp: sample_component_def sample_obj_def read_fields_def
        obj_lookup_def well_typed_def in_int64_iff max_rowid_def int64_max_def)
  show ?thesis by (intro conjI h create_then_get [OF h])
qed

text \<open>C2: on any reachable table, PUT /components/<id> of an existing id with a well-typed
  body answers 200 with the new record, replaces every field (the stored values are the
  posted ones, whatever was stored before), changes no other id, and a following GET
  answers 200 with the same record.\<close>

theorem update_then_get:
  assumes "reachable cfg t" "in_int64 (int i)" "map_of t (int i) = Some old"
    "read_fields data = Inr obj" "well_typed obj"
  shows "\<exists>row t'.
     wsgi_app cfg t \<lparr>req_method = PUT, req_path = component_path i, req_body = data\<rparr> =
       (Response (json_response 200 (component_to_dict (int i) row)), t') \<and>
     component_map sql_to_json row = obj \<and> map_of t' = (map_of t)(int i \<mapsto> row) \<and>
     fst (wsgi_app cfg t' \<lparr>req_method = GET, req_path = component_path i, req_body = JNull\<rparr>) =
       Response (json_response 200 (component_to_dict (int i) row))"
proof -
  have ok: "row_ok old" using reachable_table_ok [OF assms(1)] assms(3) by (rule table_ok_row)
  obtain row where row: "flush_insert obj = Inr row" "component_map sql_to_json row = obj"
    using flush_insert_echo [OF assms(5)] by blast
  let ?t' = "table_update (int i) row t"
  have put: "wsgi_app cfg t \<lparr>req_method = PUT, req_path = component_path i, req_body = data\<rparr> =
      (Response (json_response 200 (component_to_dict (int i) row)), ?t')"
    using update_component_found [OF assms(2,3) ok, of data] assms(4) row(1)
    by (simp add: wsgi_app_def dispatch_item)
  have m: "map_of ?t' = (map_of t)(int i \<mapsto> row)"
    using assms(3) by (simp add: table_update_def dom_map_of_conv_image_fst [symmetric] domI)
  then have "fst (wsgi_app cfg ?t' \<lparr>req_method = GET, req_path = component_path i, req_body = JNull\<rparr>) =
      Response (json_response 200 (component_to_dict (int i) row))"
    using assms(2) by (simp add: wsgi_app_def dispatch_item get_component_found)
  with put row(2) m show ?thesis by blast
qed

theorem update_then_get_witness:
  "reachable test_config [(1, sample_row)] \<and> in_int64 (int 1) \<and>
   map_of [(1, sample_row)] (int 1) = Some sample_row \<and>
   read_fields updated_component = Inr updated_obj \<and> well_typed updated_obj \<and>
   (\<exists>row t'.
     wsgi_app test_config [(1, sample_row)] \<lparr>req_method = PUT, req_path = component_path 1, req_body = updated_component\<rparr> =
       (Response (json_response 200 (component_to_dict (int 1) row)), t') \<and>
     component_map sql_to_json row = updated_obj \<and> map_of t' = (map_of [(1, sample_row)])(int 1 \<mapsto> row) \<and>
     fst (wsgi_app test_config t' \<lparr>req_method = GET, req_path = component_path 1, req_body = JNull\<rparr>) =
       Response (json_response 200 (component_to_dict (int 1) row)))"
proof -
  have h: "reachable test_config [(1, sample_row)]" "in_int64 (int 1)"
    "map_of [(1, sample_row)] (int 1) = Some sample_row"
    "read_fields updated_component = Inr updated_obj" "well_typed updated_obj"
    by (simp_all add: reachable_sample model_defs updated_component_def updated_obj_def)
  show ?thesis using h update_then_get [OF h] by blast
qed

text \<open>C3: DELETE /components/<id> of an existing id answers 204 with an empty body and
  removes exactly that id; a GET or a second DELETE of it then answers 404.\<close>

theorem delete_then_get:
  assumes "in_int64 (int i)" "map_of t (int i) = Some c"
  shows "\<exists>t'.
     wsgi_app cfg t \<lparr>req_method = DELETE, req_path = component_path i, req_body = JNull\<rparr> =
       (Response \<lparr>status = 204, resp_body = EmptyBody\<rparr>, t') \<and>
     map_of t' = (map_of t)(int i := None) \<and>
     wsgi_app cfg t' \<lparr>req_method = GET, req_path = component_path i, req_body = JNull\<rparr> =
       (Response (error_page 404), t') \<and>
     wsgi_app cfg t' \<lparr>req_method = DELETE, req_path = component_path i, req_body = JNull\<rparr> =
       (Response (error_page 404), t')"
proof -
  let ?t' = "table_delete (int i) t"
  have m: "map_of ?t' = (map_of t)(int i := None)" by (simp add: table_delete_def)
  show ?thesis
    using assms m
    by (simp add: wsgi_app_def dispatch_item delete_component_found get_component_missing
        delete_component_missing)
qed

theorem delete_then_get_witness:
  "in_int64 (int 1) \<and> map_of [(1, sample_row)] (int 1) = Some sample_row \<and>
   (\<exists>t'.
     wsgi_app production [(1, sample_row)] \<lparr>req_method = DELETE, req_path = component_path 1, req_body = JNull\<rparr> =
       (Response \<lparr>status = 204, resp_body = EmptyBody\<rparr>, t') \<and>
     map_of t' = (map_of [(1, sample_row)])(int 1 := None) \<and>
     wsgi_app production t' \<lparr>req_method = GET, req_path = component_path 1, req_body = JNull\<rparr> =
       (Response (error_page 404), t') \<and>
     wsgi_app production t' \<lparr>req_method = DELETE, req_path = component_path 1, req_body = JNull\<rparr> =
       (Response (error_page 404), t'))"
proof -
  have h: "in_int64 (int 1)" "map_of [(1, sample_row)] (int 1) = Some sample_row"
    by (simp_all add: model_defs)
  show ?thesis using h delete_then_get [OF h, of production] by blast
qed

text \<open>C4: a GET, PUT or DELETE of an id that is within 64 bits and not in the table answers
  404 and leaves the table unchanged, whatever the body.\<close>

theorem unknown_id_not_found:
  assumes "in_int64 (int i)" "map_of t (int i) = None" "m \<in> {GET, PUT, DELETE}"
  shows "wsgi_app cfg t \<lparr>req_method = m, req_path = component_path i, req_body = b\<rparr> =
     (Response (error_page 404), t)"
  using assms
  by (auto simp: wsgi_app_def dispatch_item get_component_missing update_component_missing
      delete_component_missing)

theorem unknown_id_not_found_witness:
  "in_int64 (int 999) \<and> map_of ([] :: table) (int 999) = None \<and> GET \<in> {GET, PUT, DELETE} \<and>
   wsgi_app test_config [] \<lparr>req_method = GET, req_path = component_path 999, req_body = JNull\<rparr> =
     (Response (error_page 404), [])"
proof -
  have h: "in_int64 (int 999)" "map_of ([] :: table) (int 999) = None" "GET \<in> {GET, PUT, DELETE}"
    by (simp_all add: model_defs)
  show ?thesis using h unknown_id_not_found [OF h] by blast
qed

section \<open>Errors, optional fields and divergences from the spec\<close>

text \<open>C5: in every reachable table the ids are distinct and within 1 to 2^63-1, name and type are stored as text, amount is never null, and version, description and datasheet_url are null or text, never integers.\<close>

theorem reachable_rows_typed:
  assumes "reachable cfg t" "(r, row) \<in> set t"
  shows "1 \<le> r \<and> r \<le> int64_max \<and> distinct (map fst t) \<and>
    (\<exists>s. name row = SText s) \<and> (\<exists>s. type row = SText s) \<and> amount row \<noteq> SNull \<and>
    (\<forall>w. version row \<noteq> SInt w \<and> description row \<noteq> SInt w \<and> datasheet_url row \<noteq> SInt w)"
proof -
  have ok: "table_ok t" by (rule reachable_table_ok [OF assms(1)])
  then have r: "1 \<le> r \<and> r \<le> int64_max" and rok: "row_ok row" and d: "distinct (map fst t)"
    using assms(2) by (auto simp: table_ok_iff keys_strict_distinct)
  note cols = rok [unfolded row_ok_iff col_ok_def component_columns_def col_affinity_def, simplified]
  have "name row = SNull \<or> (\<exists>s. name row = SText s)" "type row = SNull \<or> (\<exists>s. type row = SText s)"
    "version row = SNull \<or> (\<exists>s. version row = SText s)"
    "description row = SNull \<or> (\<exists>s. description row = SText s)"
    "datasheet_url row = SNull \<or> (\<exists>s. datasheet_url row = SText s)"
    using cols by (auto dest: text_column_value)
  with cols r d show ?thesis by auto
qed

theorem reachable_rows_typed_witness:
  "reachable test_config [(1, sample_row)] \<and> (1, sample_row) \<in> set [(1, sample_row)] \<and>
   1 \<le> (1::int) \<and> 1 \<le> int64_max \<and> distinct (map fst [(1::int, sample_row)]) \<and>
   (\<exists>s. name sample_row = SText s) \<and> (\<exists>s. type sample_row = SText s) \<and> amount sample_row \<noteq> SNull \<and>
   (\<forall>w. version sample_row \<noteq> SInt w \<and> description sample_row \<noteq> SInt w \<and> datasheet_url sample_row \<noteq> SInt w)"
  using reachable_rows_typed [OF reachable_sample, of 1 sample_row] reachable_sample by simp

text \<open>C6: a POST whose body lacks one of the keys name, type, description, amount, datasheet_url (or is not an object) is not a validation error: in production it answers 500, under TESTING the KeyError or TypeError is re-raised to the client, and the table is unchanged either way.\<close>

theorem missing_field_server_error:
  assumes "k \<in> set required_keys" "\<not> has_key data k"
  shows "wsgi_app production t \<lparr>req_method = POST, req_path = ''/components'', req_body = data\<rparr> =
           (Response (error_page 500), t) \<and>
         (\<exists>e. wsgi_app test_config t \<lparr>req_method = POST, req_path = ''/components'', req_body = data\<rparr> =
           (Raised e, t))"
proof -
  have "\<not> (\<exists>obj. read_fields data = Inr obj)"
    using assms by (auto simp: read_fields_Inr_iff list_all_iff)
  then obtain e where "read_fields data = Inl e" by (cases "read_fields data") auto
  then have "create_component t data = Inl e" by (simp add: create_component_def)
  then show ?thesis using post_server_error by blast
qed

theorem missing_field_server_error_witness:
  "''type'' \<in> set required_keys \<and> \<not> has_key incomplete_component ''type'' \<and>
   wsgi_app production [] \<lparr>req_method = POST, req_path = ''/components'', req_body = incomplete_component\<rparr> =
     (Response (error_page 500), []) \<and>
   (\<exists>e. wsgi_app test_config [] \<lparr>req_method = POST, req_path = ''/components'', req_body = incomplete_component\<rparr> =
     (Raised e, []))"
proof -
  have h: "''type'' \<in> set required_keys" "\<not> has_key incomplete_component ''type''"
    by (simp_all add: model_defs incomplete_component_def)
  show ?thesis using h missing_field_server_error [OF h, of "[]"] by blast
qed

text \<open>C7: a POST whose body has no version key, all else well-typed, creates the row with version stored as null.\<close>

theorem absent_version_stored_null:
  assumes "reachable cfg t" "max_rowid t < int64_max" "read_fields data = Inr obj" "well_typed obj"
    "\<not> has_key data ''version''"
  shows "\<exists>row. wsgi_app cfg t \<lparr>req_method = POST, req_path = ''/components'', req_body = data\<rparr> =
       (Response (json_response 201 (component_to_dict (max_rowid t + 1) row)), t @ [(max_rowid t + 1, row)]) \<and>
     version row = SNull"
proof -
  obtain row where post: "wsgi_app cfg t \<lparr>req_method = POST, req_path = ''/components'', req_body = data\<rparr> =
       (Response (json_response 201 (component_to_dict (max_rowid t + 1) row)), t @ [(max_rowid t + 1, row)])"
    and echo: "component_map sql_to_json row = obj"
    using post_well_typed [OF assms(3,4,2)] by blast
  have "version obj = JNull"
    using assms(3,5) by (cases data) (auto simp: read_fields_def has_key_def split: option.splits)
  with echo have "version row = SNull" by (auto simp: component_map_def)
  with post show ?thesis by blast
qed

theorem absent_version_stored_null_witness:
  "reachable test_config [] \<and> max_rowid [] < int64_max \<and> read_fields led_component = Inr led_obj \<and>
   well_typed led_obj \<and> \<not> has_key led_component ''version'' \<and>
   (\<exists>row. wsgi_app test_config [] \<lparr>req_method = POST, req_path = ''/components'', req_body = led_component\<rparr> =
       (Response (json_response 201 (component_to_dict (max_rowid [] + 1) row)), [] @ [(max_rowid [] + 1, row)]) \<and>
     version row = SNull)"
proof -
  have h: "reachable test_config []" "max_rowid [] < int64_max" "read_fields led_component = Inr led_obj"
    "well_typed led_obj" "\<not> has_key led_component ''version''"
    by (simp_all add: reachable.init model_defs led_component_def led_obj_def)
  show ?thesis using h absent_version_stored_null [OF h] by blast
qed

text \<open>C8: a POST whose description and datasheet_url are JSON null, all else well-typed, is accepted with 201 and stores both as null: the code requires the keys, not non-null values.\<close>

theorem null_description_accepted:
  assumes "reachable cfg t" "max_rowid t < int64_max" "read_fields data = Inr obj" "well_typed obj"
    "description obj = JNull" "datasheet_url obj = JNull"
  shows "\<exists>row. wsgi_app cfg t \<lparr>req_method = POST, req_path = ''/components'', req_body = data\<rparr> =
       (Response (json_response 201 (component_to_dict (max_rowid t + 1) row)), t @ [(max_rowid t + 1, row)]) \<and>
     description row = SNull \<and> datasheet_url row = SNull"
proof -
  obtain row where post: "wsgi_app cfg t \<lparr>req_method = POST, req_path = ''/components'', req_body = data\<rparr> =
       (Response (json_response 201 (component_to_dict (max_rowid t + 1) row)), t @ [(max_rowid t + 1, row)])"
    and echo: "component_map sql_to_json row = obj"
    using post_well_typed [OF assms(3,4,2)] by blast
  from echo assms(5,6) have "description row = SNull \<and> datasheet_url row = SNull"
    by (auto simp: component_map_def)
  with post show ?thesis by blast
qed

theorem null_description_accepted_witness:
  "reachable production [] \<and> max_rowid [] < int64_max \<and> read_fields bare_payload = Inr bare_obj \<and>
   well_typed bare_obj \<and> description bare_obj = JNull \<and> datasheet_url bare_obj = JNull \<and>
   (\<exists>row. wsgi_app production [] \<lparr>req_method = POST, req_path = ''/components'', req_body = bare_payload\<rparr> =
       (Response (json_response 201 (component_to_dict (max_rowid [] + 1) row)), [] @ [(max_rowid [] + 1, row)]) \<and>
     description row = SNull \<and> datasheet_url row = SNull)"
proof -
  have h: "reachable production []" "max_rowid [] < int64_max" "read_fields bare_payload = Inr bare_obj"
    "well_typed bare_obj" "description bare_obj = JNull" "datasheet_url bare_obj = JNull"
    by (simp_all add: reachable.init model_defs bare_payload_def bare_obj_def)
  show ?thesis using h null_description_accepted [OF h] by blast
qed

text \<open>C9: ids are reused: on an empty table, creating a component, deleting id 1 and creating again gives the new component id 1 again.\<close>

theorem id_reused_after_delete:
  assumes "read_fields data = Inr obj" "well_typed obj"
  shows "\<exists>row. run cfg []
      [\<lparr>req_method = POST, req_path = ''/components'', req_body = data\<rparr>,
       \<lparr>req_method = DELETE, req_path = component_path 1, req_body = JNull\<rparr>,
       \<lparr>req_method = POST, req_path = ''/components'', req_body = data\<rparr>] =
    ([Response (json_response 201 (component_to_dict 1 row)),
      Response \<lparr>status = 204, resp_body = EmptyBody\<rparr>,
      Response (json_response 201 (component_to_dict 1 row))], [(1, row)])"
proof -
  have room: "max_rowid ([] :: table) < int64_max" by (simp add: max_rowid_def int64_max_def)
  obtain row where post: "wsgi_app cfg [] \<lparr>req_method = POST, req_path = ''/components'', req_body = data\<rparr> =
       (Response (json_response 201 (component_to_dict 1 row)), [(1, row)])"
    using post_well_typed [OF assms room, of cfg] by (auto simp: max_rowid_def)
  have del: "wsgi_app cfg [(1, row)] \<lparr>req_method = DELETE, req_path = component_path 1, req_body = JNull\<rparr> =
       (Response \<lparr>status = 204, resp_body = EmptyBody\<rparr>, [])"
    by (simp add: wsgi_app_def dispatch_item delete_component_found in_int64_iff table_delete_def)
  from post del show ?thesis by simp
qed

theorem id_reused_after_delete_witness:
  "read_fields sample_component = Inr sample_obj \<and> well_typed sample_obj \<and>
   (\<exists>row. run production []
      [\<lparr>req_method = POST, req_path = ''/components'', req_body = sample_component\<rparr>,
       \<lparr>req_method = DELETE, req_path = component_path 1, req_body = JNull\<rparr>,
       \<lparr>req_method = POST, req_path = ''/components'', req_body = sample_component\<rparr>] =
    ([Response (json_response 201 (component_to_dict 1 row)),
      Response \<lparr>status = 204, resp_body = EmptyBody\<rparr>,
      Response (json_response 201 (component_to_dict 1 row))], [(1, row)]))"
proof -
  have h: "read_fields sample_component = Inr sample_obj" "well_typed sample_obj"
    by (simp_all add: model_defs sample_component_def sample_obj_def)
  show ?thesis using h id_reused_after_delete [OF h, of production] by blast
qed

text \<open>C10: a GET, PUT or DELETE of an id the URL converter accepts but that does not fit in 64 bits answers 500 in production, not 404, and changes nothing.\<close>

theorem huge_id_server_error:
  assumes "\<not> in_int64 (int i)" "m \<in> {GET, PUT, DELETE}"
  shows "wsgi_app production t \<lparr>req_method = m, req_path = component_path i, req_body = b\<rparr> =
     (Response (error_page 500), t)"
  using assms
  by (auto simp: wsgi_app_def dispatch_item get_component_def update_component_def delete_component_def
      get_or_404_cases handle_exception_def production_def)

theorem huge_id_server_error_witness:
  "\<not> in_int64 (int 9223372036854775808) \<and> GET \<in> {GET, PUT, DELETE} \<and>
   wsgi_app production [] \<lparr>req_method = GET, req_path = component_path 9223372036854775808, req_body = JNull\<rparr> =
     (Response (error_page 500), [])"
proof -
  have h: "\<not> in_int64 (int 9223372036854775808)" "GET \<in> {GET, PUT, DELETE}"
    by (simp_all add: in_int64_iff)
  show ?thesis using h huge_id_server_error [OF h, of "[]"] by blast
qed

text \<open>C11: a POST whose body has all keys but a value sqlite3 cannot bind (an integer outside 64 bits, a list or an object) answers 500 in production and changes nothing.\<close>

theorem unbindable_value_server_error:
  assumes "read_fields data = Inr obj"
    "\<exists>f \<in> {name, type, version, description, amount, datasheet_url}. \<exists>e. sqlite_bind (f obj) = Inl e"
  shows "wsgi_app production t \<lparr>req_method = POST, req_path = ''/components'', req_body = data\<rparr> =
     (Response (error_page 500), t)"
proof -
  have "\<exists>e. flush_insert obj = Inl e"
    using assms(2)
    by (cases "flush_insert obj")
       (auto simp: flush_insert_def component_seq_def component_map_def exc_bind_def split: sum.splits)
  then obtain e where "create_component t data = Inl e"
    using assms(1) by (auto simp: create_component_def)
  then show ?thesis using post_server_error by blast
qed

theorem unbindable_value_server_error_witness:
  "read_fields huge_amount_payload = Inr huge_amount_obj \<and>
   (\<exists>f \<in> {name, type, version, description, amount, datasheet_url}. \<exists>e. sqlite_bind (f huge_amount_obj) = Inl e) \<and>
   wsgi_app production [] \<lparr>req_method = POST, req_path = ''/components'', req_body = huge_amount_payload\<rparr> =
     (Response (error_page 500), [])"
proof -
  have h: "read_fields huge_amount_payload = Inr huge_amount_obj"
    "\<exists>f \<in> {name, type, version, description, amount, datasheet_url}. \<exists>e. sqlite_bind (f huge_amount_obj) = Inl e"
    by (simp_all add: model_defs huge_amount_payload_def huge_amount_obj_def)
  show ?thesis using h unbindable_value_server_error [OF h, of "[]"] by blast
qed

text \<open>C12: no GET request changes the table.\<close>

theorem get_requests_read_only:
  assumes "req_method req = GET"
  shows "snd (wsgi_app cfg t req) = t"
  using assms
  by (auto simp: wsgi_app_def dispatch_def get_components_def get_component_def
      split: sum.splits route.splits)

theorem get_requests_read_only_witness:
  "req_method \<lparr>req_method = GET, req_path = ''/components'', req_body = JNull\<rparr> = GET \<and>
   snd (wsgi_app production [(1, sample_row)] \<lparr>req_method = GET, req_path = ''/components'', req_body = JNull\<rparr>) =
     [(1, sample_row)]"
  using get_requests_read_only [of "\<lparr>req_method = GET, req_path = ''/components'', req_body = JNull\<rparr>"] by simp





section \<open>The Component Store\<close>

theorem table_step_refines_witness:
  "table_ok [] \<and> op_ok (Insert sample_row) \<and>
   table_step (Insert sample_row) [] = Inr (Inserted 1, [(1, sample_row)]) \<and>
   store_spec (Insert sample_row) Map.empty (Inserted 1) [1 \<mapsto> sample_row]"
proof -
  have h: "table_ok []" "op_ok (Insert sample_row)"
    "table_step (Insert sample_row) [] = Inr (Inserted 1, [(1, sample_row)])"
    by (simp_all add: model_defs sample_row_def row_ok_def col_ok_def)
  show ?thesis using h table_step_refines [OF h] by simp
qed

theorem table_step_ok_witness:
  "table_ok [(1, sample_row)] \<and> op_ok (Delete 1) \<and>
   table_step (Delete 1) [(1, sample_row)] = Inr (Done, []) \<and> table_ok []"
proof -
  have h: "table_ok [(1, sample_row)]" "op_ok (Delete 1)"
    "table_step (Delete 1) [(1, sample_row)] = Inr (Done, [])"
    by (simp_all add: model_defs sample_row_def row_ok_def col_ok_def)
  show ?thesis using h table_step_ok [OF h] by simp
qed

section \<open>Update, round trips and listing\<close>

text \<open>C17: on a table that satisfies the invariant, update_component, which writes only the
  attributes whose new value differs (by Python's ==) from the loaded one, has the same
  outcome as the reference replace_component, which writes every column from the request
  as an INSERT would: same response, same table, same exception.\<close>

theorem update_is_full_rewrite:
  assumes "table_ok t"
  shows "update_component t i data = replace_component t i data"
proof (cases "get_or_404 t i")
  case (Inl e)
  then show ?thesis by (simp add: update_component_def replace_component_def)
next
  case (Inr old)
  then have found: "in_int64 (int i)" "map_of t (int i) = Some old" by (simp_all add: get_or_404_Inr)
  have "row_ok old" using table_ok_row [OF assms found(2)] .
  with found Inr show ?thesis by (simp add: update_component_found replace_component_def)
qed

theorem update_is_full_rewrite_witness:
  "table_ok [(1, sample_row)] \<and>
   update_component [(1, sample_row)] 1 updated_component =
     replace_component [(1, sample_row)] 1 updated_component"
proof -
  have h: "table_ok [(1, sample_row)]" by (simp add: model_defs sample_row_def row_ok_def col_ok_def)
  show ?thesis using h update_is_full_rewrite [OF h] by simp
qed

text \<open>C18: on any reachable table, a PUT of an existing id whose body is the record a GET of
  that id returned answers 200 with the same record and leaves the table as it was.\<close>

theorem put_get_roundtrip:
  assumes "reachable cfg t" "map_of t (int i) = Some c"
  shows "update_component t i (component_to_dict (int i) c) =
           Inr (json_response 200 (component_to_dict (int i) c), t)"
proof -
  have ok: "table_ok t" using assms(1) by (rule reachable_table_ok)
  have row: "row_ok c" using table_ok_row [OF ok assms(2)] .
  have key: "in_int64 (int i)" using table_ok_key [OF ok assms(2)] by simp
  have same: "table_update (int i) c t = t"
    using ok assms(2) by (simp add: table_update_def table_ok_iff keys_strict_distinct update_at_same)
  show ?thesis
    using update_component_found [OF key assms(2) row] read_component_to_dict flush_insert_read_back [OF row] same
    by simp
qed

theorem put_get_roundtrip_witness:
  "reachable production [(1, sample_row)] \<and> map_of [(1, sample_row)] (int 1) = Some sample_row \<and>
   update_component [(1, sample_row)] 1 (component_to_dict 1 sample_row) =
     Inr (json_response 200 (component_to_dict 1 sample_row), [(1, sample_row)])"
proof -
  have h: "reachable production [(1, sample_row)]" "map_of [(1, sample_row)] (int 1) = Some sample_row"
    by (simp_all add: reachable_sample)
  show ?thesis using h put_get_roundtrip [OF h] by simp
qed

text \<open>C19: a POST whose amount is a JSON string, all other fields well-typed, is accepted
  with 201. The INTEGER column stores the decimal numeral of a 64-bit integer n as the
  integer n, which GET then returns as a number, and stores a string without any digit as
  that string. (Numeric text of other shapes, such as 12.0, 1e3 or numerals beyond 64 bits,
  SQLite turns into an integer or a REAL; the model does not cover those.)\<close>

theorem string_amount_accepted:
  assumes "read_fields data = Inr obj" "amount obj = JStr s" "well_typed (obj\<lparr>amount := JInt 0\<rparr>)"
    "max_rowid t < int64_max" "(\<exists>n. s = dec_of_int n \<and> in_int64 n) \<or> (\<forall>c \<in> set s. \<not> is_digit c)"
  shows "\<exists>row. wsgi_app cfg t \<lparr>req_method = POST, req_path = ''/components'', req_body = data\<rparr> =
       (Response (json_response 201 (component_to_dict (max_rowid t + 1) row)), t @ [(max_rowid t + 1, row)]) \<and>
     (\<forall>n. s = dec_of_int n \<and> in_int64 n \<longrightarrow> sql_to_json (amount row) = JInt n) \<and>
     ((\<forall>c \<in> set s. \<not> is_digit c) \<longrightarrow> sql_to_json (amount row) = JStr s)"
proof -
  obtain row0 where r0: "flush_insert (obj\<lparr>amount := JInt 0\<rparr>) = Inr row0"
    using flush_insert_echo [OF assms(3)] by blast
  have ne: "apply_affinity INTEGER (SText s) \<noteq> SNull" by (simp split: option.splits)
  have obj: "obj\<lparr>amount := JStr s\<rparr> = obj" using assms(2) by (cases obj) simp
  have fl: "flush_insert obj = Inr (row0\<lparr>amount := apply_affinity INTEGER (SText s)\<rparr>)"
    using flush_insert_amount [OF r0, of "JStr s" "SText s"] ne obj by simp
  have num: "sql_to_json (apply_affinity INTEGER (SText s)) = JInt n" if "s = dec_of_int n" "in_int64 n" for n
    using that by (simp add: sint_word_of_int_i64)
  have nodigit: "sql_to_json (apply_affinity INTEGER (SText s)) = JStr s" if "\<forall>c \<in> set s. \<not> is_digit c"
    using int_of_dec_no_digit [OF that] by simp
  from create_component_append [OF assms(1) fl assms(4)] num nodigit show ?thesis
    by (auto simp: wsgi_post)
qed

theorem string_amount_accepted_witness:
  "\<exists>row. wsgi_app production [] \<lparr>req_method = POST, req_path = ''/components'', req_body = string_amount_payload\<rparr> =
       (Response (json_response 201 (component_to_dict 1 row)), [(1, row)]) \<and>
     sql_to_json (amount row) = JInt 12"
proof -
  have h: "read_fields string_amount_payload = Inr string_amount_obj" "amount string_amount_obj = JStr ''12''"
    "well_typed (string_amount_obj\<lparr>amount := JInt 0\<rparr>)" "max_rowid [] < int64_max"
    by (simp_all add: model_defs string_amount_payload_def string_amount_obj_def)
  have n: "''12'' = dec_of_int 12" "in_int64 12" by (simp_all add: model_defs)
  then have "(\<exists>n. ''12'' = dec_of_int n \<and> in_int64 n) \<or> (\<forall>c \<in> set ''12''. \<not> is_digit c)" by blast
  from string_amount_accepted [OF h this, of production] n show ?thesis by (auto simp: max_rowid_def)
qed

text \<open>C20: while the largest id is below 2^63-1, a successful POST appends: the listing after
  it is the listing before followed by the created record, so GET /components lists the
  components in the order they were created.\<close>

theorem list_after_create:
  assumes "max_rowid t < int64_max" "create_component t data = Inr (resp, t')"
    "get_components t = Inr (json_response 200 (JArr L), t)"
  shows "\<exists>d. resp = json_response 201 d \<and> get_components t' = Inr (json_response 200 (JArr (L @ [d])), t')"
proof -
  obtain obj row where rf: "read_fields data = Inr obj" and fl: "flush_insert obj = Inr row"
    using assms(2) by (auto simp: create_component_def)
  from create_component_append [OF rf fl assms(1)] assms(2)
  have "resp = json_response 201 (component_to_dict (max_rowid t + 1) row)"
    "t' = t @ [(max_rowid t + 1, row)]" by auto
  with assms(3) show ?thesis by (auto simp: get_components_def json_response_def)
qed

theorem list_after_create_witness:
  "\<exists>d. get_components [(1, sample_row)] = Inr (json_response 200 (JArr [d]), [(1, sample_row)]) \<and>
     d = component_to_dict 1 sample_row"
proof -
  have h: "max_rowid [] < int64_max"
    "create_component [] sample_component =
       Inr (json_response 201 (component_to_dict 1 sample_row), [(1, sample_row)])"
    "get_components [] = Inr (json_response 200 (JArr []), [])"
    by (simp_all add: model_defs sample_component_def sample_row_def)
  show ?thesis using list_after_create [OF h] by (auto simp: json_response_def)
qed

section \<open>Requests on different ids\<close>

text \<open>C21: on any reachable table, two requests to /components/<i> and /components/<j> with
  i different from j, whatever their methods and bodies, commute: each gets the same outcome
  whether it runs first or second, and the table after both is the same in either order.
  Each request is one transaction, so this is the spec's promise (section 5) that operations
  on different ids do not interfere, for every interleaving of two such requests.\<close>

theorem item_requests_commute:
  assumes "reachable cfg t" "i \<noteq> j"
  shows "run cfg t [item_request m2 j b2, item_request m1 i b1] =
           (rev (fst (run cfg t [item_request m1 i b1, item_request m2 j b2])),
            snd (run cfg t [item_request m1 i b1, item_request m2 j b2]))"
proof -
  let ?R1 = "item_request m1 i b1" and ?R2 = "item_request m2 j b2"
  obtain o1 t1 where r1: "wsgi_app cfg t ?R1 = (o1, t1)" by fastforce
  obtain o2 t12 where r12: "wsgi_app cfg t1 ?R2 = (o2, t12)" by fastforce
  obtain o2' t2 where r2: "wsgi_app cfg t ?R2 = (o2', t2)" by fastforce
  obtain o1' t21 where r21: "wsgi_app cfg t2 ?R1 = (o1', t21)" by fastforce
  note frame = item_request_frame and local = item_request_local
  have ij: "int i \<noteq> int j" using assms(2) by simp
  have t2i: "map_of t2 (int i) = map_of t (int i)"
    using r2 frame [where k = "int i" and i = j and t = t and cfg = cfg and m = m2 and b = b2, OF ij] by simp
  have t1j: "map_of t1 (int j) = map_of t (int j)"
    using r1 frame [where k = "int j" and i = i and t = t and cfg = cfg and m = m1 and b = b1, OF ij [symmetric]]
    by simp
  from local [OF t2i, of cfg m1 b1] r1 r21
  have o1: "o1' = o1" and i21: "map_of t21 (int i) = map_of t1 (int i)" by simp_all
  from local [OF t1j, of cfg m2 b2] r2 r12
  have o2: "o2 = o2'" and j12: "map_of t12 (int j) = map_of t2 (int j)" by simp_all
  have "map_of t21 k = map_of t12 k" for k
  proof -
    consider "k = int i" | "k = int j" | "k \<noteq> int i" "k \<noteq> int j" by blast
    then show ?thesis
    proof cases
      case 1
      then show ?thesis
        using r12 i21 frame [where k = "int i" and i = j and t = t1 and cfg = cfg and m = m2 and b = b2, OF ij]
        by simp
    next
      case 2
      then show ?thesis
        using r21 j12 frame [where k = "int j" and i = i and t = t2 and cfg = cfg and m = m1 and b = b1, OF ij [symmetric]]
        by simp
    next
      case 3
      then show ?thesis
        using r1 r2 r12 r21
          frame [where k = k and i = i and t = t2 and cfg = cfg and m = m1 and b = b1]
          frame [where k = k and i = j and t = t and cfg = cfg and m = m2 and b = b2]
          frame [where k = k and i = i and t = t and cfg = cfg and m = m1 and b = b1]
          frame [where k = k and i = j and t = t1 and cfg = cfg and m = m2 and b = b2]
        by simp
    qed
  qed
  moreover have "keys_strict t21" "keys_strict t12"
    using reachable_table_ok [OF assms(1)] r1 r2 r12 r21
    by (meson table_ok_iff wsgi_app_ok)+
  ultimately have "t21 = t12" using keys_strict_map_of_eq by blast
  then show ?thesis using r1 r2 r12 r21 o1 o2 by simp
qed

theorem item_requests_commute_witness:
  "run production [(1, sample_row)] [item_request DELETE 2 JNull, item_request PUT 1 updated_component] =
     (rev (fst (run production [(1, sample_row)] [item_request PUT 1 updated_component, item_request DELETE 2 JNull])),
      snd (run production [(1, sample_row)] [item_request PUT 1 updated_component, item_request DELETE 2 JNull]))"
proof -
  have h: "reachable production [(1, sample_row)]" "(1::nat) \<noteq> 2" by (simp_all add: reachable_sample)
  show ?thesis using item_requests_commute [OF h] .
qed

section \<open>Listing after several creates\<close>

text \<open>C22: POSTing any list of N well-typed payloads, N at most 2^63-1, to the empty store
  and then GET /components returns exactly N records, the k-th with id k and, read as a
  payload, the same fields as the k-th payload (spec section 8).\<close>

theorem list_after_creates:
  assumes "list_all (\<lambda>d. \<exists>obj. read_fields d = Inr obj \<and> well_typed obj) ds" "int (length ds) \<le> int64_max"
  shows "\<exists>L. get_components (snd (run cfg [] (map post_request ds))) =
             Inr (json_response 200 (JArr L), snd (run cfg [] (map post_request ds))) \<and>
           list_all2 (\<lambda>d j. read_fields j = read_fields d) ds L \<and>
           map (\<lambda>j. getitem j ''id'') L = map (\<lambda>i. Inr (JInt i)) [1..int (length ds)]"
proof -
  obtain rows where t: "snd (run cfg [] (map post_request ds)) = zip [1..int (length ds)] rows"
    and rel: "list_all2 (\<lambda>d row. read_fields d = Inr (component_map sql_to_json row)) ds rows"
    using run_posts [OF assms] by blast
  have len: "length rows = length ds" using rel by (simp add: list_all2_lengthD)
  let ?L = "map (\<lambda>(i, c). component_to_dict i c) (zip [1..int (length ds)] rows)"
  have a: "list_all2 (\<lambda>d j. read_fields j = read_fields d) ds ?L"
    using rel len by (simp add: list_all2_conv_all_nth read_component_to_dict)
  have b: "map (\<lambda>j. getitem j ''id'') ?L = map (\<lambda>i. Inr (JInt i)) [1..int (length ds)]"
  proof -
    have "map (\<lambda>j. getitem j ''id'') ?L = map (\<lambda>i. Inr (JInt i)) (map fst (zip [1..int (length ds)] rows))"
      by (simp add: getitem_dict_id case_prod_beta)
    with len show ?thesis by simp
  qed
  have c: "get_components (snd (run cfg [] (map post_request ds))) =
      Inr (json_response 200 (JArr ?L), snd (run cfg [] (map post_request ds)))"
    by (simp only: t get_components_def)
  from a b c show ?thesis by blast
qed

theorem list_after_creates_witness:
  "\<exists>L. get_components (snd (run production [] (map post_request [sample_component, led_component]))) =
         Inr (json_response 200 (JArr L), snd (run production [] (map post_request [sample_component, led_component]))) \<and>
       list_all2 (\<lambda>d j. read_fields j = read_fields d) [sample_component, led_component] L \<and>
       map (\<lambda>j. getitem j ''id'') L = [Inr (JInt 1), Inr (JInt 2)]"
proof -
  have h: "list_all (\<lambda>d. \<exists>obj. read_fields d = Inr obj \<and> well_typed obj) [sample_component, led_component]"
    "int (length [sample_component, led_component]) \<le> int64_max"
    by (simp_all add: model_defs)
  show ?thesis using list_after_creates [OF h, of production] by (simp add: upto.simps)
qed

section \<open>Validation and representation\<close>

text \<open>C23: a PUT to an existing id whose body lacks one of the keys name, type, description,
  amount, datasheet_url (or is not an object) is not a validation error: in production it
  answers 500, under TESTING the exception is re-raised, and the row is unchanged.\<close>

theorem update_missing_field_server_error:
  assumes "in_int64 (int i)" "map_of t (int i) = Some c" "k \<in> set required_keys" "\<not> has_key data k"
  shows "wsgi_app production t (item_request PUT i data) = (Response (error_page 500), t) \<and>
         (\<exists>e. wsgi_app test_config t (item_request PUT i data) = (Raised e, t))"
proof -
  have "\<not> (\<exists>obj. read_fields data = Inr obj)"
    using assms(3,4) by (auto simp: read_fields_Inr_iff list_all_iff)
  then obtain e where e: "read_fields data = Inl e" by (cases "read_fields data") auto
  then have "e \<noteq> NotFound" using read_fields_not_found by metis
  moreover have "update_component t i data = Inl e"
    using assms(1,2) e by (simp add: update_component_def get_or_404_cases assign_fields_overwrites)
  ultimately show ?thesis using put_server_error by blast
qed

theorem update_missing_field_server_error_witness:
  "wsgi_app production [(1, sample_row)] (item_request PUT 1 incomplete_component) =
     (Response (error_page 500), [(1, sample_row)]) \<and>
   (\<exists>e. wsgi_app test_config [(1, sample_row)] (item_request PUT 1 incomplete_component) =
     (Raised e, [(1, sample_row)]))"
proof -
  have h: "in_int64 (int 1)" "map_of [(1, sample_row)] (int 1) = Some sample_row"
    "''type'' \<in> set required_keys" "\<not> has_key incomplete_component ''type''"
    by (simp_all add: model_defs incomplete_component_def)
  show ?thesis using update_missing_field_server_error [OF h] .
qed

text \<open>C24: on any reachable table, a POST, or a PUT to an existing id, whose name is JSON null,
  all other fields well-typed, fails with SQLite's NOT NULL constraint on name: in production
  it answers 500, not a validation error, and changes nothing.\<close>

theorem null_name_server_error:
  assumes "reachable cfg t" "read_fields data = Inr obj" "name obj = JNull"
    "well_typed (obj\<lparr>name := JStr []\<rparr>)" "in_int64 (int i)" "map_of t (int i) = Some c"
  shows "create_component t data = Inl (IntegrityError ''name'') \<and>
         update_component t i data = Inl (IntegrityError ''name'') \<and>
         wsgi_app production t (post_request data) = (Response (error_page 500), t) \<and>
         wsgi_app production t (item_request PUT i data) = (Response (error_page 500), t)"
proof -
  obtain row where "flush_insert (obj\<lparr>name := JStr []\<rparr>) = Inr row"
    using flush_insert_echo [OF assms(4)] by blast
  from flush_insert_name_null [OF this] assms(3)
  have fl: "flush_insert obj = Inl (IntegrityError ''name'')" by (cases obj) simp
  have "row_ok c" using table_ok_row [OF reachable_table_ok [OF assms(1)] assms(6)] .
  then have up: "update_component t i data = Inl (IntegrityError ''name'')"
    using assms(2,5,6) fl by (simp add: update_component_found)
  have cr: "create_component t data = Inl (IntegrityError ''name'')"
    using assms(2) fl by (simp add: create_component_def)
  show ?thesis
    using up cr post_server_error [OF cr] put_server_error [OF up]
    by (simp add: post_request_def)
qed

theorem null_name_server_error_witness:
  "wsgi_app production [(1, sample_row)] (post_request null_name_payload) = (Response (error_page 500), [(1, sample_row)]) \<and>
   wsgi_app production [(1, sample_row)] (item_request PUT 1 null_name_payload) = (Response (error_page 500), [(1, sample_row)])"
proof -
  have h: "reachable production [(1, sample_row)]" "read_fields null_name_payload = Inr null_name_obj"
    "name null_name_obj = JNull" "well_typed (null_name_obj\<lparr>name := JStr []\<rparr>)" "in_int64 (int 1)"
    "map_of [(1, sample_row)] (int 1) = Some sample_row"
    by (simp_all add: reachable_sample model_defs null_name_payload_def null_name_obj_def)
  show ?thesis using null_name_server_error [OF h] by blast
qed

text \<open>C25: for a POST whose fields other than amount are well-typed and whose amount is an
  integer n, on a table with room for another rowid: the POST creates a row exactly when
  -2^63 <= n < 2^63, and then the stored amount reads back as n.\<close>

theorem amount_range:
  assumes "read_fields data = Inr obj" "amount obj = JInt n" "well_typed (obj\<lparr>amount := JInt 0\<rparr>)"
    "max_rowid t < int64_max"
  shows "((\<exists>resp t'. create_component t data = Inr (resp, t')) \<longleftrightarrow> - (2 ^ 63) \<le> n \<and> n < 2 ^ 63) \<and>
         (\<forall>resp t'. create_component t data = Inr (resp, t') \<longrightarrow>
           (\<exists>row. t' = t @ [(max_rowid t + 1, row)] \<and> sql_to_json (amount row) = JInt n))"
proof -
  have obj: "obj\<lparr>amount := JInt 0\<rparr>\<lparr>amount := JInt n\<rparr> = obj" using assms(2) by (cases obj) simp
  obtain row0 where r0: "flush_insert (obj\<lparr>amount := JInt 0\<rparr>) = Inr row0"
    using flush_insert_echo [OF assms(3)] by blast
  have ok: "\<exists>row. flush_insert obj = Inr row \<and> sql_to_json (amount row) = JInt n" if "in_int64 n"
  proof -
    have "well_typed obj" using assms(2,3) that by (simp add: well_typed_def)
    then obtain row where "flush_insert obj = Inr row" "component_map sql_to_json row = obj"
      using flush_insert_echo by blast
    then show ?thesis using assms(2) by (auto simp: component_map_def)
  qed
  have bad: "flush_insert obj = Inl OverflowError" if "\<not> in_int64 n"
    using flush_insert_amount_Inl [OF r0, of "JInt n" OverflowError] that obj by simp
  have iff: "(\<exists>resp t'. create_component t data = Inr (resp, t')) \<longleftrightarrow> - (2 ^ 63) \<le> n \<and> n < 2 ^ 63"
  proof (cases "in_int64 n")
    case True
    with ok obtain row where "flush_insert obj = Inr row" by blast
    from create_component_append [OF assms(1) this assms(4)] True show ?thesis
      by (auto simp: in_int64_def int64_min_def int64_max_def)
  next
    case False
    with bad assms(1) show ?thesis
      by (auto simp: create_component_def in_int64_def int64_min_def int64_max_def)
  qed
  have stored: "\<exists>row. u = t @ [(max_rowid t + 1, row)] \<and> sql_to_json (amount row) = JInt n"
    if "create_component t data = Inr (resp, u)" for resp u
  proof -
    have "in_int64 n" using that bad assms(1) by (cases "in_int64 n") (auto simp: create_component_def)
    with ok obtain row where "flush_insert obj = Inr row" "sql_to_json (amount row) = JInt n" by blast
    with create_component_append [OF assms(1) this(1) assms(4)] that show ?thesis by auto
  qed
  from iff stored show ?thesis by blast
qed

theorem amount_range_witness:
  "\<exists>resp row. create_component [] max_amount_payload = Inr (resp, [(1, row)]) \<and>
     sql_to_json (amount row) = JInt 9223372036854775807"
proof -
  have h: "read_fields max_amount_payload = Inr max_amount_obj"
    "amount max_amount_obj = JInt 9223372036854775807"
    "well_typed (max_amount_obj\<lparr>amount := JInt 0\<rparr>)" "max_rowid [] < int64_max"
    by (simp_all add: model_defs max_amount_payload_def max_amount_obj_def)
  have "- (2 ^ 63) \<le> (9223372036854775807::int) \<and> (9223372036854775807::int) < 2 ^ 63" by simp
  then show ?thesis using amount_range [OF h] by (auto simp: max_rowid_def)
qed

end
